theory Spec2Isabelle
  imports Main "HOL-Library.List_Lexorder" "HOL-Library.Char_ord" "HOL-Library.Multiset"
    "HOL-Library.AList"
begin

section \<open>Decoded RAML data\<close>

text \<open>
  The module \<^verbatim>\<open>ramlfications/parameters.py\<close> works on the generic tree a YAML/JSON
  loader hands over. A mapping key is an integer (a response code) or a string; two keys
  of different types are never equal in Python, so HOL equality on \<open>pykey\<close> is Python's
  \<^verbatim>\<open>==\<close>. A mapping is an association list in declaration order, which is the order
  \<^verbatim>\<open>iteritems\<close> walks.
\<close>

datatype pykey = KInt int | KStr string

datatype pyval =
    PyNone
  | PyBool bool
  | PyInt int
  | PyStr string
  | PyList "pyval list"
  | PyDict "(pykey \<times> pyval) list"

fun of_key :: "pykey \<Rightarrow> pyval" where
  "of_key (KInt i) = PyInt i"
| "of_key (KStr s) = PyStr s"

text \<open>Python truthiness, as \<^verbatim>\<open>if self.desc:\<close> tests it.\<close>

fun truthy :: "pyval \<Rightarrow> bool" where
  "truthy PyNone = False"
| "truthy (PyBool b) = b"
| "truthy (PyInt i) = (i \<noteq> 0)"
| "truthy (PyStr s) = (s \<noteq> [])"
| "truthy (PyList xs) = (xs \<noteq> [])"
| "truthy (PyDict kvs) = (kvs \<noteq> [])"

datatype exn = AttributeError | TypeError | IndexError | AssertionError | Invalid string

text \<open>
  An errors collection is a mutable list, so it is modelled by its identity. Every
  function declared with \<^verbatim>\<open>errors=[]\<close> owns one list object, created when the function
  is defined and used whenever the caller leaves the argument out; \<open>Addr\<close> is a list
  the caller allocated. The store maps every list to its current content.
\<close>

datatype ref =
    BaseParameter_init_errors
  | BaseParameter_init_list_errors
  | Body_init_errors
  | Body_init_list_errors
  | Response_init_errors
  | Response_init_list_errors
  | Addr nat

type_synonym store = "ref \<Rightarrow> exn list"

definition errors_or :: "ref \<Rightarrow> ref option \<Rightarrow> ref" where
  "errors_or dflt errors = (case errors of None \<Rightarrow> dflt | Some r \<Rightarrow> r)"

section \<open>Content\<close>

record content =
  data :: pyval

definition Content :: "pyval \<Rightarrow> content" where
  "Content d = \<lparr>data = d\<rparr>"

definition content_raw :: "content \<Rightarrow> pyval" where
  "content_raw c = data c"

section \<open>Named parameters\<close>

definition HTTP_METHODS :: "string list" where
  "HTTP_METHODS = [''get'', ''post'', ''put'', ''delete'', ''patch'', ''options'',
     ''head'', ''trace'', ''connect'']"

definition NAMED_PARAMS :: "string list" where
  "NAMED_PARAMS = [''desc'', ''type'', ''enum'', ''pattern'', ''minimum'', ''maximum'',
     ''example'', ''default'', ''required'', ''repeat'', ''display_name'', ''max_length'',
     ''min_length'']"

datatype kind = BaseParameter | URIParameter | QueryParameter | FormParameter | Header

text \<open>
  One record for \<^verbatim>\<open>BaseParameter\<close> and its subclasses; \<open>cls\<close> is the object's class.
  \<^verbatim>\<open>required\<close> and \<^verbatim>\<open>type\<close> are declared by every subclass, \<^verbatim>\<open>method\<close> by
  \<^verbatim>\<open>Header\<close> only. The merges read these through
  \<^verbatim>\<open>getattr(obj, n, None)\<close>, which cannot tell a missing attribute from one that is
  \<^verbatim>\<open>None\<close>, so a missing attribute is stored as \<open>PyNone\<close>.
\<close>

record parameter =
  cls :: kind
  name :: pykey
  raw :: pyval
  desc :: pyval
  display_name :: pyval
  min_length :: pyval
  max_length :: pyval
  minimum :: pyval
  maximum :: pyval
  example :: pyval
  default :: pyval
  config :: pyval
  errors :: ref
  repeat :: pyval
  pattern :: pyval
  enum :: pyval
  required :: pyval
  type :: pyval
  method' :: pyval

text \<open>
  \<^verbatim>\<open>getattr(p, n, None)\<close> and \<^verbatim>\<open>setattr(p, n, v)\<close> for the attribute names the merges
  pass: the thirteen of \<open>NAMED_PARAMS\<close> and \<^verbatim>\<open>"method"\<close>.
\<close>

definition getattr :: "parameter \<Rightarrow> string \<Rightarrow> pyval" where
  "getattr p n =
    (if n = ''desc'' then desc p
     else if n = ''type'' then type p
     else if n = ''enum'' then enum p
     else if n = ''pattern'' then pattern p
     else if n = ''minimum'' then minimum p
     else if n = ''maximum'' then maximum p
     else if n = ''example'' then example p
     else if n = ''default'' then default p
     else if n = ''required'' then required p
     else if n = ''repeat'' then repeat p
     else if n = ''display_name'' then display_name p
     else if n = ''max_length'' then max_length p
     else if n = ''min_length'' then min_length p
     else if n = ''method'' then method' p
     else PyNone)"

definition setattr :: "parameter \<Rightarrow> string \<Rightarrow> pyval \<Rightarrow> parameter" where
  "setattr p n v =
    (if n = ''desc'' then p\<lparr>desc := v\<rparr>
     else if n = ''type'' then p\<lparr>type := v\<rparr>
     else if n = ''enum'' then p\<lparr>enum := v\<rparr>
     else if n = ''pattern'' then p\<lparr>pattern := v\<rparr>
     else if n = ''minimum'' then p\<lparr>minimum := v\<rparr>
     else if n = ''maximum'' then p\<lparr>maximum := v\<rparr>
     else if n = ''example'' then p\<lparr>example := v\<rparr>
     else if n = ''default'' then p\<lparr>default := v\<rparr>
     else if n = ''required'' then p\<lparr>required := v\<rparr>
     else if n = ''repeat'' then p\<lparr>repeat := v\<rparr>
     else if n = ''display_name'' then p\<lparr>display_name := v\<rparr>
     else if n = ''max_length'' then p\<lparr>max_length := v\<rparr>
     else if n = ''min_length'' then p\<lparr>min_length := v\<rparr>
     else if n = ''method'' then p\<lparr>method' := v\<rparr>
     else p)"

text \<open>
  The body of the inner loop, shared by both merges:
  \<^verbatim>\<open>attr = getattr(self, n, None); if attr is None: setattr(self, n, getattr(param, n, None))\<close>.
  Ancestors are passed by value. An ancestor that is the record itself would be read
  only where the record's attribute is still \<^verbatim>\<open>None\<close>, and would give \<^verbatim>\<open>None\<close>
  again, as its copy does.
\<close>

definition inherit_attr :: "parameter \<Rightarrow> parameter \<Rightarrow> string \<Rightarrow> parameter" where
  "inherit_attr param self n =
    (let attr = getattr self n
     in if attr = PyNone then setattr self n (getattr param n) else self)"

text \<open>
  \<^verbatim>\<open>BaseParameter._inherit_type_properties\<close>. Every ancestor is a parameter record and
  so has \<^verbatim>\<open>name\<close>: \<^verbatim>\<open>getattr(param, "name", getattr(param, "code", None))\<close> is its name.
\<close>

fun BaseParameter_inherit_type_properties :: "parameter \<Rightarrow> parameter list \<Rightarrow> parameter" where
  "BaseParameter_inherit_type_properties self [] = self"
| "BaseParameter_inherit_type_properties self (param # inherited_param) =
    (if name param = name self
     then BaseParameter_inherit_type_properties
            (foldl (inherit_attr param) self NAMED_PARAMS) inherited_param
     else BaseParameter_inherit_type_properties self inherited_param)"

text \<open>\<^verbatim>\<open>Header._inherit_type_properties\<close>: no test on the ancestor's name.\<close>

fun Header_inherit_type_properties :: "parameter \<Rightarrow> parameter list \<Rightarrow> parameter" where
  "Header_inherit_type_properties self [] = self"
| "Header_inherit_type_properties self (param # inherited_param) =
    Header_inherit_type_properties
      (foldl (inherit_attr param) self (NAMED_PARAMS @ [''method''])) inherited_param"

text \<open>The method an object runs is the one of its class.\<close>

definition inherit_type_properties :: "parameter \<Rightarrow> parameter list \<Rightarrow> parameter" where
  "inherit_type_properties self inherited_param =
    (if cls self = Header then Header_inherit_type_properties self inherited_param
     else BaseParameter_inherit_type_properties self inherited_param)"

text \<open>The first value of a list that is set, \<open>PyNone\<close> when none is.\<close>

fun first_set :: "pyval list \<Rightarrow> pyval" where
  "first_set [] = PyNone"
| "first_set (v # vs) = (if v \<noteq> PyNone then v else first_set vs)"

section \<open>Bodies, responses and security schemes\<close>

record body =
  mime_type :: pykey
  raw :: pyval
  schema :: pyval
  example :: pyval
  form_params :: pyval
  config :: pyval
  errors :: ref

definition body_params :: "string list" where
  "body_params = [''schema'', ''example'', ''form_params'']"

text \<open>\<^verbatim>\<open>getattr(b, n, None)\<close> and \<^verbatim>\<open>setattr(b, n, v)\<close> for the names of \<open>body_params\<close>.\<close>

definition getattr_body :: "body \<Rightarrow> string \<Rightarrow> pyval" where
  "getattr_body b n =
    (if n = ''schema'' then schema b
     else if n = ''example'' then body.example b
     else if n = ''form_params'' then form_params b
     else PyNone)"

definition setattr_body :: "body \<Rightarrow> string \<Rightarrow> pyval \<Rightarrow> body" where
  "setattr_body b n v =
    (if n = ''schema'' then b\<lparr>schema := v\<rparr>
     else if n = ''example'' then b\<lparr>body.example := v\<rparr>
     else if n = ''form_params'' then b\<lparr>form_params := v\<rparr>
     else b)"

definition inherit_attr_body :: "body \<Rightarrow> body \<Rightarrow> string \<Rightarrow> body" where
  "inherit_attr_body param self n =
    (let attr = getattr_body self n
     in if attr = PyNone then setattr_body self n (getattr_body param n) else self)"

text \<open>\<^verbatim>\<open>Body._inherit_type_properties\<close>: an ancestor of another MIME type is skipped.\<close>

fun Body_inherit_type_properties :: "body \<Rightarrow> body list \<Rightarrow> body" where
  "Body_inherit_type_properties self [] = self"
| "Body_inherit_type_properties self (param # inherited_param) =
    (if mime_type param \<noteq> mime_type self
     then Body_inherit_type_properties self inherited_param
     else Body_inherit_type_properties
            (foldl (inherit_attr_body param) self body_params) inherited_param)"

record response =
  code :: pykey
  raw :: pyval
  desc :: pyval
  headers :: "parameter list option"
  body :: "body list"
  config :: pyval
  errors :: ref
  method' :: pyval

text \<open>
  \<^verbatim>\<open>Documentation\<close>; the two fields are its attributes \<^verbatim>\<open>_title\<close> and \<^verbatim>\<open>_content\<close>.
\<close>

record documentation =
  doc_title :: pyval
  doc_content :: pyval

definition Documentation_title :: "documentation \<Rightarrow> content" where
  "Documentation_title self = Content (doc_title self)"

definition Documentation_content :: "documentation \<Rightarrow> content" where
  "Documentation_content self = Content (doc_content self)"

text \<open>
  A security scheme has its eight declared attributes and the ones \<^verbatim>\<open>from_file\<close> sets
  on it by name with \<^verbatim>\<open>setattr\<close>; \<open>attached\<close> holds those, by attribute name.
\<close>

datatype attached =
    Parameters "parameter list option"
  | Bodies "body list"
  | Responses "response list"
  | Documentations "documentation list option"
  | Verbatim pyval

record security_scheme =
  name :: pykey
  raw :: pyval
  type :: pyval
  described_by :: pyval
  desc :: pyval
  settings :: pyval
  config :: pyval
  errors :: ref
  attached :: "(string \<times> attached) list"

definition setattr_scheme :: "security_scheme \<Rightarrow> string \<Rightarrow> attached \<Rightarrow> security_scheme" where
  "setattr_scheme scheme n v = scheme\<lparr>attached := AList.update n v (attached scheme)\<rparr>"

text \<open>What \<^verbatim>\<open>from_file\<close> reads of the root node.\<close>

record root_node =
  config :: pyval
  errors :: ref

section \<open>The description accessors\<close>

definition BaseParameter_description :: "parameter \<Rightarrow> content option" where
  "BaseParameter_description self =
    (if truthy (parameter.desc self) then Some (Content (parameter.desc self)) else None)"

definition Header_description :: "parameter \<Rightarrow> content option" where
  "Header_description self =
    (if truthy (parameter.desc self) then Some (Content (parameter.desc self)) else None)"

definition description :: "parameter \<Rightarrow> content option" where
  "description self =
    (if cls self = Header then Header_description self else BaseParameter_description self)"

definition Response_description :: "response \<Rightarrow> content option" where
  "Response_description self =
    (if truthy (response.desc self) then Some (Content (response.desc self)) else None)"

definition SecurityScheme_description :: "security_scheme \<Rightarrow> content option" where
  "SecurityScheme_description self =
    (if truthy (security_scheme.desc self) then Some (Content (security_scheme.desc self))
     else None)"

section \<open>Collaborators and validation\<close>

text \<open>
  The validators come from \<^verbatim>\<open>validate.py\<close> and \<^verbatim>\<open>load_schema\<close> from \<^verbatim>\<open>utils.py\<close>;
  neither file is part of the sources, so they are parameters. A validator is called as
  \<^verbatim>\<open>validator(inst, attribute, value)\<close> once the instance is built; its return value is
  dropped. It lets the value pass, records a diagnostic on \<^verbatim>\<open>inst.errors\<close> and lets
  the value pass, or raises.
\<close>

datatype verdict = Accept | Collect exn | Raise exn

record collaborators =
  string_type_parameter :: "parameter \<Rightarrow> string \<Rightarrow> pyval \<Rightarrow> verdict"
  integer_number_type_parameter :: "parameter \<Rightarrow> string \<Rightarrow> pyval \<Rightarrow> verdict"
  header_type :: "parameter \<Rightarrow> string \<Rightarrow> pyval \<Rightarrow> verdict"
  body_mime_type :: "body \<Rightarrow> string \<Rightarrow> pykey \<Rightarrow> verdict"
  body_schema :: "body \<Rightarrow> string \<Rightarrow> pyval \<Rightarrow> verdict"
  body_example :: "body \<Rightarrow> string \<Rightarrow> pyval \<Rightarrow> verdict"
  body_form :: "body \<Rightarrow> string \<Rightarrow> pyval \<Rightarrow> verdict"
  response_code :: "response \<Rightarrow> string \<Rightarrow> pykey \<Rightarrow> verdict"
  defined_sec_scheme_settings :: "security_scheme \<Rightarrow> string \<Rightarrow> pyval \<Rightarrow> verdict"
  load_schema :: "pyval \<Rightarrow> pyval"

text \<open>\<^verbatim>\<open>attr.validators.instance_of(dict)\<close> raises \<^verbatim>\<open>TypeError\<close> on anything else.\<close>

definition instance_of_dict :: "pyval \<Rightarrow> verdict" where
  "instance_of_dict v = (case v of PyDict kvs \<Rightarrow> Accept | _ \<Rightarrow> Raise TypeError)"

text \<open>
  The generated \<^verbatim>\<open>__init__\<close> runs the validators in the order of the attributes; \<open>r\<close>
  is \<^verbatim>\<open>inst.errors\<close>.
\<close>

fun run_validators :: "verdict list \<Rightarrow> ref \<Rightarrow> store \<Rightarrow> exn + store" where
  "run_validators [] r st = Inr st"
| "run_validators (Accept # vs) r st = run_validators vs r st"
| "run_validators (Collect e # vs) r st = run_validators vs r (st(r := st r @ [e]))"
| "run_validators (Raise e # vs) r st = Inl e"

text \<open>
  \<^verbatim>\<open>cls(**arguments)\<close> for a parameter. \<^verbatim>\<open>BaseParameter\<close> itself declares neither
  \<^verbatim>\<open>required\<close> nor \<^verbatim>\<open>type\<close>, so its \<^verbatim>\<open>__init__\<close> refuses these keywords.
\<close>

definition new_parameter :: "collaborators \<Rightarrow> parameter \<Rightarrow> store \<Rightarrow> exn + (parameter \<times> store)" where
  "new_parameter V inst st =
    (if cls inst = BaseParameter then Inl TypeError
     else case run_validators
        ([instance_of_dict (parameter.raw inst),
          string_type_parameter V inst ''min_length'' (min_length inst),
          string_type_parameter V inst ''max_length'' (max_length inst),
          integer_number_type_parameter V inst ''minimum'' (minimum inst),
          integer_number_type_parameter V inst ''maximum'' (maximum inst),
          instance_of_dict (parameter.config inst),
          string_type_parameter V inst ''pattern'' (pattern inst),
          string_type_parameter V inst ''enum'' (enum inst)] @
         (if cls inst = Header then [header_type V inst ''type'' (parameter.type inst)] else []))
        (parameter.errors inst) st of
       Inl e \<Rightarrow> Inl e
     | Inr st' \<Rightarrow> Inr (inst, st'))"

definition new_body :: "collaborators \<Rightarrow> body \<Rightarrow> store \<Rightarrow> exn + (body \<times> store)" where
  "new_body V inst st =
    (case run_validators
        [body_mime_type V inst ''mime_type'' (mime_type inst),
         instance_of_dict (body.raw inst),
         body_schema V inst ''schema'' (schema inst),
         body_example V inst ''example'' (body.example inst),
         body_form V inst ''form_params'' (form_params inst),
         instance_of_dict (body.config inst)]
        (body.errors inst) st of
       Inl e \<Rightarrow> Inl e
     | Inr st' \<Rightarrow> Inr (inst, st'))"

definition new_response :: "collaborators \<Rightarrow> response \<Rightarrow> store \<Rightarrow> exn + (response \<times> store)" where
  "new_response V inst st =
    (case run_validators
        [response_code V inst ''code'' (code inst),
         instance_of_dict (response.raw inst),
         instance_of_dict (response.config inst)]
        (response.errors inst) st of
       Inl e \<Rightarrow> Inl e
     | Inr st' \<Rightarrow> Inr (inst, st'))"

definition new_security_scheme ::
  "collaborators \<Rightarrow> security_scheme \<Rightarrow> store \<Rightarrow> exn + (security_scheme \<times> store)" where
  "new_security_scheme V inst st =
    (case run_validators
        [instance_of_dict (security_scheme.raw inst),
         defined_sec_scheme_settings V inst ''settings'' (settings inst)]
        (security_scheme.errors inst) st of
       Inl e \<Rightarrow> Inl e
     | Inr st' \<Rightarrow> Inr (inst, st'))"

section \<open>Normalization\<close>

type_synonym kwargs = "(pykey \<times> pyval) list"

definition dict_get :: "(pykey \<times> pyval) list \<Rightarrow> string \<Rightarrow> pyval \<Rightarrow> pyval" where
  "dict_get kvs item dflt = (case map_of kvs (KStr item) of Some v \<Rightarrow> v | None \<Rightarrow> dflt)"

text \<open>
  \<^verbatim>\<open>BaseParameter._get\<close>: only a mapping has \<^verbatim>\<open>get\<close>; on anything else the
  \<^verbatim>\<open>AttributeError\<close> is caught and the default returned.
\<close>

definition BaseParameter_get :: "pyval \<Rightarrow> string \<Rightarrow> pyval \<Rightarrow> pyval" where
  "BaseParameter_get data' item dflt =
    (case data' of PyDict kvs \<Rightarrow> dict_get kvs item dflt | _ \<Rightarrow> dflt)"

text \<open>\<^verbatim>\<open>item in data\<close> for a declaration: whether the field is written out.\<close>

definition declares :: "pyval \<Rightarrow> string \<Rightarrow> bool" where
  "declares data' item =
    (case data' of PyDict kvs \<Rightarrow> map_of kvs (KStr item) \<noteq> None | _ \<Rightarrow> False)"

text \<open>\<^verbatim>\<open>BaseParameter.init\<close>; \<open>errors = None\<close> is a call that leaves the argument out.\<close>

definition BaseParameter_init ::
  "collaborators \<Rightarrow> kind \<Rightarrow> pykey \<Rightarrow> pyval \<Rightarrow> pyval \<Rightarrow> ref option \<Rightarrow> kwargs \<Rightarrow> store
     \<Rightarrow> exn + (parameter \<times> store)" where
  "BaseParameter_init V cls' name' data' config' errors' kwargs st =
    (let required' =
           (if cls' = URIParameter then BaseParameter_get data' ''required'' (PyBool True)
            else BaseParameter_get data' ''required'' (PyBool False));
         arguments =
           \<lparr>cls = cls',
            name = name',
            raw = PyDict [(name', data')],
            desc = BaseParameter_get data' ''description'' PyNone,
            display_name = BaseParameter_get data' ''displayName'' (of_key name'),
            min_length = BaseParameter_get data' ''minLength'' PyNone,
            max_length = BaseParameter_get data' ''maxLength'' PyNone,
            minimum = BaseParameter_get data' ''minimum'' PyNone,
            maximum = BaseParameter_get data' ''maximum'' PyNone,
            example = BaseParameter_get data' ''example'' PyNone,
            default = BaseParameter_get data' ''default'' PyNone,
            config = config',
            errors = errors_or BaseParameter_init_errors errors',
            repeat = BaseParameter_get data' ''repeat'' (PyBool False),
            pattern = BaseParameter_get data' ''pattern'' PyNone,
            enum = BaseParameter_get data' ''enum'' PyNone,
            required = required',
            type = BaseParameter_get data' ''type'' (PyStr ''string''),
            method' = (if cls' = Header then dict_get kwargs ''method'' PyNone else PyNone)\<rparr>
     in new_parameter V arguments st)"

text \<open>\<^verbatim>\<open>iteritems(data)\<close>: the entries in declaration order; only a mapping has them.\<close>

definition iteritems :: "pyval \<Rightarrow> exn + (pykey \<times> pyval) list" where
  "iteritems data' = (case data' of PyDict kvs \<Rightarrow> Inr kvs | _ \<Rightarrow> Inl AttributeError)"

text \<open>The loop of \<^verbatim>\<open>BaseParameter.init_list\<close>, appending one object per entry.\<close>

fun BaseParameter_init_each ::
  "collaborators \<Rightarrow> kind \<Rightarrow> (pykey \<times> pyval) list \<Rightarrow> pyval \<Rightarrow> ref \<Rightarrow> kwargs \<Rightarrow> store
     \<Rightarrow> exn + (parameter list \<times> store)" where
  "BaseParameter_init_each V cls' [] config' errors' kwargs st = Inr ([], st)"
| "BaseParameter_init_each V cls' ((key, val) # items) config' errors' kwargs st =
    (case BaseParameter_init V cls' key val config' (Some errors') kwargs st of
       Inl e \<Rightarrow> Inl e
     | Inr (obj, st1) \<Rightarrow>
        (case BaseParameter_init_each V cls' items config' errors' kwargs st1 of
           Inl e \<Rightarrow> Inl e
         | Inr (objects, st2) \<Rightarrow> Inr (obj # objects, st2)))"

text \<open>\<^verbatim>\<open>BaseParameter.init_list\<close>; \<^verbatim>\<open>objects or None\<close> is \<open>None\<close> for the empty list.\<close>

definition BaseParameter_init_list ::
  "collaborators \<Rightarrow> kind \<Rightarrow> pyval \<Rightarrow> pyval \<Rightarrow> ref option \<Rightarrow> kwargs \<Rightarrow> store
     \<Rightarrow> exn + (parameter list option \<times> store)" where
  "BaseParameter_init_list V cls' data' config' errors' kwargs st =
    (case iteritems data' of
       Inl e \<Rightarrow> Inl e
     | Inr items \<Rightarrow>
        (case BaseParameter_init_each V cls' items config'
                (errors_or BaseParameter_init_list_errors errors') kwargs st of
           Inl e \<Rightarrow> Inl e
         | Inr (objects, st') \<Rightarrow> Inr (if objects = [] then None else Some objects, st')))"

text \<open>\<^verbatim>\<open>Body.init\<close> and \<^verbatim>\<open>Body.init_list\<close>, which returns the list as it is.\<close>

definition Body_init ::
  "collaborators \<Rightarrow> pykey \<Rightarrow> pyval \<Rightarrow> pyval \<Rightarrow> ref option \<Rightarrow> kwargs \<Rightarrow> store
     \<Rightarrow> exn + (body \<times> store)" where
  "Body_init V name' data' config' errors' kwargs st =
    (let arguments =
           \<lparr>mime_type = name',
            raw = data',
            schema = load_schema V (BaseParameter_get data' ''schema'' PyNone),
            example = load_schema V (BaseParameter_get data' ''example'' PyNone),
            form_params = BaseParameter_get data' ''formParameters'' PyNone,
            config = config',
            errors = errors_or Body_init_errors errors'\<rparr>
     in new_body V arguments st)"

fun Body_init_each ::
  "collaborators \<Rightarrow> (pykey \<times> pyval) list \<Rightarrow> pyval \<Rightarrow> ref \<Rightarrow> kwargs \<Rightarrow> store
     \<Rightarrow> exn + (body list \<times> store)" where
  "Body_init_each V [] config' errors' kwargs st = Inr ([], st)"
| "Body_init_each V ((key, val) # items) config' errors' kwargs st =
    (case Body_init V key val config' (Some errors') kwargs st of
       Inl e \<Rightarrow> Inl e
     | Inr (obj, st1) \<Rightarrow>
        (case Body_init_each V items config' errors' kwargs st1 of
           Inl e \<Rightarrow> Inl e
         | Inr (bodies, st2) \<Rightarrow> Inr (obj # bodies, st2)))"

definition Body_init_list ::
  "collaborators \<Rightarrow> pyval \<Rightarrow> pyval \<Rightarrow> ref option \<Rightarrow> kwargs \<Rightarrow> store
     \<Rightarrow> exn + (body list \<times> store)" where
  "Body_init_list V data' config' errors' kwargs st =
    (case iteritems data' of
       Inl e \<Rightarrow> Inl e
     | Inr items \<Rightarrow>
        Body_init_each V items config' (errors_or Body_init_list_errors errors') kwargs st)"

text \<open>
  \<^verbatim>\<open>Response.init\<close>. \<^verbatim>\<open>data.get\<close> is called on the declaration directly, so a
  declaration that is no mapping raises \<^verbatim>\<open>AttributeError\<close>. The two nested calls are
  \<^verbatim>\<open>Header.init_list(data.get("headers", {}), config)\<close> and
  \<^verbatim>\<open>Body.init_list(data.get("body", {}), config)\<close>: neither is given \<^verbatim>\<open>errors\<close> or
  keyword arguments.
\<close>

definition Response_init ::
  "collaborators \<Rightarrow> pykey \<Rightarrow> pyval \<Rightarrow> pyval \<Rightarrow> ref option \<Rightarrow> kwargs \<Rightarrow> store
     \<Rightarrow> exn + (response \<times> store)" where
  "Response_init V name' data' config' errors' kwargs st =
    (case data' of
       PyDict kvs \<Rightarrow>
        (case BaseParameter_init_list V Header (dict_get kvs ''headers'' (PyDict [])) config'
                None [] st of
           Inl e \<Rightarrow> Inl e
         | Inr (hs, st1) \<Rightarrow>
            (case Body_init_list V (dict_get kvs ''body'' (PyDict [])) config' None [] st1 of
               Inl e \<Rightarrow> Inl e
             | Inr (bs, st2) \<Rightarrow>
                new_response V
                  \<lparr>code = name',
                   raw = data',
                   desc = dict_get kvs ''description'' PyNone,
                   headers = hs,
                   body = bs,
                   config = config',
                   errors = errors_or Response_init_errors errors',
                   method' = PyNone\<rparr> st2))
     | _ \<Rightarrow> Inl AttributeError)"

fun Response_init_each ::
  "collaborators \<Rightarrow> (pykey \<times> pyval) list \<Rightarrow> pyval \<Rightarrow> ref \<Rightarrow> kwargs \<Rightarrow> store
     \<Rightarrow> exn + (response list \<times> store)" where
  "Response_init_each V [] config' errors' kwargs st = Inr ([], st)"
| "Response_init_each V ((key, val) # items) config' errors' kwargs st =
    (case Response_init V key val config' (Some errors') kwargs st of
       Inl e \<Rightarrow> Inl e
     | Inr (obj, st1) \<Rightarrow>
        (case Response_init_each V items config' errors' kwargs st1 of
           Inl e \<Rightarrow> Inl e
         | Inr (responses, st2) \<Rightarrow> Inr (obj # responses, st2)))"

text \<open>
  \<^verbatim>\<open>sorted(responses, key=lambda x: x.code)\<close>: a stable sort on the codes. Integers
  compare by value and strings lexicographically; Python 3 raises \<^verbatim>\<open>TypeError\<close> when
  it has to compare an integer with a string, which every sort of a list holding both
  must do.
\<close>

fun is_KInt :: "pykey \<Rightarrow> bool" where
  "is_KInt (KInt i) = True"
| "is_KInt (KStr s) = False"

fun is_KStr :: "pykey \<Rightarrow> bool" where
  "is_KStr (KInt i) = False"
| "is_KStr (KStr s) = True"

fun int_of :: "pykey \<Rightarrow> int" where
  "int_of (KInt i) = i"
| "int_of (KStr s) = 0"

fun str_of :: "pykey \<Rightarrow> string" where
  "str_of (KInt i) = []"
| "str_of (KStr s) = s"

definition sorted_by_code :: "response list \<Rightarrow> exn + response list" where
  "sorted_by_code responses =
    (if list_all (\<lambda>x. is_KInt (code x)) responses
     then Inr (sort_key (\<lambda>x. int_of (code x)) responses)
     else if list_all (\<lambda>x. is_KStr (code x)) responses
     then Inr (sort_key (\<lambda>x. str_of (code x)) responses)
     else Inl TypeError)"

definition Response_init_list ::
  "collaborators \<Rightarrow> pyval \<Rightarrow> pyval \<Rightarrow> ref option \<Rightarrow> kwargs \<Rightarrow> store
     \<Rightarrow> exn + (response list \<times> store)" where
  "Response_init_list V data' config' errors' kwargs st =
    (case iteritems data' of
       Inl e \<Rightarrow> Inl e
     | Inr items \<Rightarrow>
        (case Response_init_each V items config'
                (errors_or Response_init_list_errors errors') kwargs st of
           Inl e \<Rightarrow> Inl e
         | Inr (responses, st') \<Rightarrow>
            (case sorted_by_code responses of
               Inl e \<Rightarrow> Inl e
             | Inr sorted_responses \<Rightarrow> Inr (sorted_responses, st'))))"

text \<open>Ascending order on codes of one type.\<close>

fun code_le :: "pykey \<Rightarrow> pykey \<Rightarrow> bool" where
  "code_le (KInt a) (KInt b) = (a \<le> b)"
| "code_le (KStr a) (KStr b) = (a \<le> b)"
| "code_le (KInt a) (KStr b) = False"
| "code_le (KStr a) (KInt b) = False"


section \<open>Security schemes from the document\<close>

text \<open>
  \<^verbatim>\<open>for s in schemes\<close>: a list gives its elements, a mapping its keys, a string its
  characters; nothing else can be iterated.
\<close>

definition iter_values :: "pyval \<Rightarrow> exn + pyval list" where
  "iter_values v =
    (case v of
       PyList xs \<Rightarrow> Inr xs
     | PyDict kvs \<Rightarrow> Inr (map (\<lambda>kv. of_key (fst kv)) kvs)
     | PyStr s \<Rightarrow> Inr (map (\<lambda>c. PyStr [c]) s)
     | _ \<Rightarrow> Inl TypeError)"

datatype data_cls = ParameterCls kind | BodyCls | ResponseCls

text \<open>
  The tables \<^verbatim>\<open>classes\<close> and \<^verbatim>\<open>other\<close>: the key under \<^verbatim>\<open>describedBy\<close>, the attribute
  the result is stored under, and the class whose \<^verbatim>\<open>init_list\<close> builds it.
\<close>

definition classes :: "(string \<times> string \<times> data_cls) list" where
  "classes =
    [(''headers'', ''headers'', ParameterCls Header),
     (''body'', ''body'', BodyCls),
     (''responses'', ''responses'', ResponseCls),
     (''queryParameters'', ''query_params'', ParameterCls QueryParameter),
     (''uriParameters'', ''uri_params'', ParameterCls URIParameter),
     (''formParameters'', ''form_params'', ParameterCls FormParameter)]"

definition other :: "(string \<times> string) list" where
  "other = [(''usage'', ''usage''), (''mediaType'', ''media_type''), (''protocols'', ''protocols'')]"

definition lookup_key :: "(string \<times> 'a) list \<Rightarrow> pykey \<Rightarrow> 'a option" where
  "lookup_key table obj = (case obj of KStr s \<Rightarrow> map_of table s | KInt i \<Rightarrow> None)"

text \<open>
  \<^verbatim>\<open>data_cls.init_list(scheme_data, root.config)\<close>: the call gives neither \<^verbatim>\<open>errors\<close>
  nor keyword arguments.
\<close>

definition init_list ::
  "collaborators \<Rightarrow> data_cls \<Rightarrow> pyval \<Rightarrow> pyval \<Rightarrow> store \<Rightarrow> exn + (attached \<times> store)" where
  "init_list V data_cls scheme_data config' st =
    (case data_cls of
       ParameterCls k \<Rightarrow>
        (case BaseParameter_init_list V k scheme_data config' None [] st of
           Inl e \<Rightarrow> Inl e
         | Inr (objects, st') \<Rightarrow> Inr (Parameters objects, st'))
     | BodyCls \<Rightarrow>
        (case Body_init_list V scheme_data config' None [] st of
           Inl e \<Rightarrow> Inl e
         | Inr (bodies, st') \<Rightarrow> Inr (Bodies bodies, st'))
     | ResponseCls \<Rightarrow>
        (case Response_init_list V scheme_data config' None [] st of
           Inl e \<Rightarrow> Inl e
         | Inr (responses, st') \<Rightarrow> Inr (Responses responses, st')))"

text \<open>\<^verbatim>\<open>[Documentation(i.get("title"), i.get("content")) for i in scheme_data]\<close>.\<close>

fun documentation_of :: "pyval list \<Rightarrow> exn + documentation list" where
  "documentation_of [] = Inr []"
| "documentation_of (i # rest) =
    (case i of
       PyDict kvs \<Rightarrow>
        (case documentation_of rest of
           Inl e \<Rightarrow> Inl e
         | Inr ds \<Rightarrow>
            Inr (\<lparr>doc_title = dict_get kvs ''title'' PyNone,
                  doc_content = dict_get kvs ''content'' PyNone\<rparr> # ds))
     | _ \<Rightarrow> Inl AttributeError)"

text \<open>The loop over the entries of \<^verbatim>\<open>scheme.described_by\<close>.\<close>

fun describe ::
  "collaborators \<Rightarrow> pyval \<Rightarrow> (pykey \<times> pyval) list \<Rightarrow> security_scheme \<Rightarrow> store
     \<Rightarrow> exn + (security_scheme \<times> store)" where
  "describe V config' [] scheme st = Inr (scheme, st)"
| "describe V config' ((obj, scheme_data) # rest) scheme st =
    (case lookup_key classes obj of
       Some (attribute_name, data_cls) \<Rightarrow>
        (case init_list V data_cls scheme_data config' st of
           Inl e \<Rightarrow> Inl e
         | Inr (v, st1) \<Rightarrow>
            describe V config' rest (setattr_scheme scheme attribute_name v) st1)
     | None \<Rightarrow>
        if obj = KStr ''documentation'' then
          (case scheme_data of
             PyList entries \<Rightarrow>
              (case documentation_of entries of
                 Inl e \<Rightarrow> Inl e
               | Inr ds \<Rightarrow>
                  describe V config' rest
                    (setattr_scheme scheme ''documentation''
                       (Documentations (if ds = [] then None else Some ds))) st)
           | _ \<Rightarrow> Inl AssertionError)
        else
          (case lookup_key other obj of
             Some attribute_name \<Rightarrow>
              describe V config' rest
                (setattr_scheme scheme attribute_name (Verbatim scheme_data)) st
           | None \<Rightarrow> describe V config' rest scheme st))"

text \<open>
  The loop over the schemes. \<^verbatim>\<open>list(iterkeys(s))[0]\<close> needs a mapping with an entry,
  and \<^verbatim>\<open>data.get\<close> needs the scheme's declaration to be a mapping.
\<close>

fun from_file_each ::
  "collaborators \<Rightarrow> pyval list \<Rightarrow> root_node \<Rightarrow> store
     \<Rightarrow> exn + (security_scheme list \<times> store)" where
  "from_file_each V [] root st = Inr ([], st)"
| "from_file_each V (s # schemes) root st =
    (case s of
       PyDict entries \<Rightarrow>
        (case entries of
           [] \<Rightarrow> Inl IndexError
         | (name', data') # others \<Rightarrow>
            (case data' of
               PyDict kvs \<Rightarrow>
                (case new_security_scheme V
                        \<lparr>name = name',
                         raw = data',
                         type = dict_get kvs ''type'' PyNone,
                         described_by = dict_get kvs ''describedBy'' (PyDict []),
                         desc = dict_get kvs ''description'' PyNone,
                         settings = dict_get kvs ''settings'' PyNone,
                         config = root_node.config root,
                         errors = root_node.errors root,
                         attached = []\<rparr> st of
                   Inl e \<Rightarrow> Inl e
                 | Inr (scheme, st1) \<Rightarrow>
                    (case iteritems (described_by scheme) of
                       Inl e \<Rightarrow> Inl e
                     | Inr items \<Rightarrow>
                        (case describe V (root_node.config root) items scheme st1 of
                           Inl e \<Rightarrow> Inl e
                         | Inr (described, st2) \<Rightarrow>
                            (case from_file_each V schemes root st2 of
                               Inl e \<Rightarrow> Inl e
                             | Inr (scheme_objs, st3) \<Rightarrow>
                                Inr (described # scheme_objs, st3)))))
             | _ \<Rightarrow> Inl AttributeError))
     | _ \<Rightarrow> Inl AttributeError)"

text \<open>\<^verbatim>\<open>SecurityScheme.from_file\<close>; \<^verbatim>\<open>scheme_objs or None\<close> at the end.\<close>

definition SecurityScheme_from_file ::
  "collaborators \<Rightarrow> pyval \<Rightarrow> root_node \<Rightarrow> store
     \<Rightarrow> exn + (security_scheme list option \<times> store)" where
  "SecurityScheme_from_file V raml root st =
    (case raml of
       PyDict kvs \<Rightarrow>
        (case iter_values (dict_get kvs ''securitySchemes'' (PyList [])) of
           Inl e \<Rightarrow> Inl e
         | Inr schemes \<Rightarrow>
            (case from_file_each V schemes root st of
               Inl e \<Rightarrow> Inl e
             | Inr (scheme_objs, st') \<Rightarrow>
                Inr (if scheme_objs = [] then None else Some scheme_objs, st')))
     | _ \<Rightarrow> Inl AttributeError)"

section \<open>Reading the merge\<close>

text \<open>
  The spec's words for what the merge leaves in an unset attribute: the value of the
  first ancestor that matches and has the attribute set, and unset when there is none.
\<close>

definition nearest :: "(parameter \<Rightarrow> bool) \<Rightarrow> string \<Rightarrow> parameter list \<Rightarrow> pyval" where
  "nearest matching n ancestors =
    (case find (\<lambda>a. matching a \<and> getattr a n \<noteq> PyNone) ancestors of
       None \<Rightarrow> PyNone
     | Some a \<Rightarrow> getattr a n)"

definition nearest_body :: "(body \<Rightarrow> bool) \<Rightarrow> string \<Rightarrow> body list \<Rightarrow> pyval" where
  "nearest_body matching n ancestors =
    (case find (\<lambda>a. matching a \<and> getattr_body a n \<noteq> PyNone) ancestors of
       None \<Rightarrow> PyNone
     | Some a \<Rightarrow> getattr_body a n)"

section \<open>Sample records\<close>

text \<open>A parameter and a body with every inheritable attribute unset.\<close>

definition unset_parameter :: "kind \<Rightarrow> pykey \<Rightarrow> parameter" where
  "unset_parameter c n =
    \<lparr>cls = c, name = n, raw = PyDict [(n, PyNone)], desc = PyNone, display_name = PyNone,
     min_length = PyNone, max_length = PyNone, minimum = PyNone, maximum = PyNone,
     example = PyNone, default = PyNone, config = PyDict [], errors = Addr 0,
     repeat = PyNone, pattern = PyNone, enum = PyNone, required = PyNone, type = PyNone,
     method' = PyNone\<rparr>"

definition unset_body :: "pykey \<Rightarrow> body" where
  "unset_body m =
    \<lparr>mime_type = m, raw = PyDict [], schema = PyNone, example = PyNone,
     form_params = PyNone, config = PyDict [], errors = Addr 0\<rparr>"


section \<open>Validators as the spec describes them\<close>

text \<open>
  Modelled from the spec: the wrapper of \<^verbatim>\<open>validate.py\<close> that decides what becomes of
  a rejected value is not among the sources. The spec says that a rejection is appended
  to the shared errors collection in permissive mode, and normalization goes on, and
  that it is raised in strict mode.
\<close>

definition reject :: "bool \<Rightarrow> string \<Rightarrow> verdict" where
  "reject strict attribute =
    (if strict then Raise (Invalid attribute) else Collect (Invalid attribute))"

text \<open>
  Modelled from the spec: \<^verbatim>\<open>string_type_parameter\<close> of \<^verbatim>\<open>validate.py\<close> is not among
  the sources. The spec says that the length constraints, \<^verbatim>\<open>pattern\<close> and \<^verbatim>\<open>enum\<close>
  are valid only on a parameter whose type is \<^verbatim>\<open>string\<close>, and that the validator
  rejects them when the type mismatches.
\<close>

definition spec_string_type_parameter :: "bool \<Rightarrow> parameter \<Rightarrow> string \<Rightarrow> pyval \<Rightarrow> verdict" where
  "spec_string_type_parameter strict inst attribute v =
    (if v \<noteq> PyNone \<and> parameter.type inst \<noteq> PyStr ''string'' then reject strict attribute
     else Accept)"

text \<open>
  Modelled from the spec: \<^verbatim>\<open>integer_number_type_parameter\<close> of \<^verbatim>\<open>validate.py\<close> is not
  among the sources. The spec says that \<^verbatim>\<open>minimum\<close> and \<^verbatim>\<open>maximum\<close> are valid only
  on a parameter whose type is \<^verbatim>\<open>integer\<close> or \<^verbatim>\<open>number\<close>.
\<close>

definition spec_integer_number_type_parameter ::
  "bool \<Rightarrow> parameter \<Rightarrow> string \<Rightarrow> pyval \<Rightarrow> verdict" where
  "spec_integer_number_type_parameter strict inst attribute v =
    (if v \<noteq> PyNone \<and> parameter.type inst \<noteq> PyStr ''integer''
        \<and> parameter.type inst \<noteq> PyStr ''number''
     then reject strict attribute else Accept)"

text \<open>
  Modelled from the spec: the remaining validators and \<^verbatim>\<open>load_schema\<close> are not among
  the sources either. The spec names them without a rule precise enough to state
  (a whitelist of header types, MIME type rules, status code ranges, setting keys), so
  they accept here; \<^verbatim>\<open>load_schema\<close> returns a value it cannot resolve as it is.
\<close>

definition spec_collaborators :: "bool \<Rightarrow> collaborators" where
  "spec_collaborators strict =
    \<lparr>string_type_parameter = spec_string_type_parameter strict,
     integer_number_type_parameter = spec_integer_number_type_parameter strict,
     header_type = (\<lambda>inst attribute v. Accept),
     body_mime_type = (\<lambda>inst attribute v. Accept),
     body_schema = (\<lambda>inst attribute v. Accept),
     body_example = (\<lambda>inst attribute v. Accept),
     body_form = (\<lambda>inst attribute v. Accept),
     response_code = (\<lambda>inst attribute v. Accept),
     defined_sec_scheme_settings = (\<lambda>inst attribute v. Accept),
     load_schema = (\<lambda>v. v)\<rparr>"

section \<open>The merge on parameters\<close>

lemma getattr_setattr_lit:
  "getattr (setattr p ''desc'' v) n = (if n = ''desc'' then v else getattr p n)"
  "getattr (setattr p ''type'' v) n = (if n = ''type'' then v else getattr p n)"
  "getattr (setattr p ''enum'' v) n = (if n = ''enum'' then v else getattr p n)"
  "getattr (setattr p ''pattern'' v) n = (if n = ''pattern'' then v else getattr p n)"
  "getattr (setattr p ''minimum'' v) n = (if n = ''minimum'' then v else getattr p n)"
  "getattr (setattr p ''maximum'' v) n = (if n = ''maximum'' then v else getattr p n)"
  "getattr (setattr p ''example'' v) n = (if n = ''example'' then v else getattr p n)"
  "getattr (setattr p ''default'' v) n = (if n = ''default'' then v else getattr p n)"
  "getattr (setattr p ''required'' v) n = (if n = ''required'' then v else getattr p n)"
  "getattr (setattr p ''repeat'' v) n = (if n = ''repeat'' then v else getattr p n)"
  "getattr (setattr p ''display_name'' v) n = (if n = ''display_name'' then v else getattr p n)"
  "getattr (setattr p ''max_length'' v) n = (if n = ''max_length'' then v else getattr p n)"
  "getattr (setattr p ''min_length'' v) n = (if n = ''min_length'' then v else getattr p n)"
  "getattr (setattr p ''method'' v) n = (if n = ''method'' then v else getattr p n)"
  by (simp_all add: getattr_def setattr_def)

lemma getattr_setattr_all:
  "list_all (\<lambda>m. \<forall>p v n. getattr (setattr p m v) n = (if n = m then v else getattr p n))
     (NAMED_PARAMS @ [''method''])"
  unfolding NAMED_PARAMS_def append.simps list_all_Cons_iff list_all_Nil_iff
  by (intro conjI allI getattr_setattr_lit TrueI)

lemma getattr_setattr:
  assumes "m \<in> set (NAMED_PARAMS @ [''method''])"
  shows "getattr (setattr p m v) n = (if n = m then v else getattr p n)"
  using getattr_setattr_all assms unfolding list_all_iff by blast

lemma setattr_frame:
  "cls (setattr p m v) = cls p"
  "parameter.name (setattr p m v) = parameter.name p"
  "parameter.raw (setattr p m v) = parameter.raw p"
  "parameter.config (setattr p m v) = parameter.config p"
  "parameter.errors (setattr p m v) = parameter.errors p"
  by (simp_all add: setattr_def)

lemma inherit_attr_frame:
  "cls (inherit_attr param self m) = cls self"
  "parameter.name (inherit_attr param self m) = parameter.name self"
  "parameter.raw (inherit_attr param self m) = parameter.raw self"
  "parameter.config (inherit_attr param self m) = parameter.config self"
  "parameter.errors (inherit_attr param self m) = parameter.errors self"
  by (simp_all add: inherit_attr_def Let_def setattr_frame)

lemma foldl_inherit_attr_frame:
  "cls (foldl (inherit_attr param) self ns) = cls self"
  "parameter.name (foldl (inherit_attr param) self ns) = parameter.name self"
  "parameter.raw (foldl (inherit_attr param) self ns) = parameter.raw self"
  "parameter.config (foldl (inherit_attr param) self ns) = parameter.config self"
  "parameter.errors (foldl (inherit_attr param) self ns) = parameter.errors self"
  by (induction ns arbitrary: self) (simp_all add: inherit_attr_frame)

lemma inherit_attr_getattr:
  assumes "m \<in> set (NAMED_PARAMS @ [''method''])"
  shows "getattr (inherit_attr param self m) n =
    (if n = m \<and> getattr self m = PyNone then getattr param m else getattr self n)"
  using assms by (simp add: inherit_attr_def Let_def getattr_setattr)

lemma foldl_inherit_attr_getattr:
  assumes "set ns \<subseteq> set (NAMED_PARAMS @ [''method''])"
  shows "getattr (foldl (inherit_attr param) self ns) n =
    (if n \<in> set ns \<and> getattr self n = PyNone then getattr param n else getattr self n)"
  using assms
proof (induction ns arbitrary: self)
  case Nil
  show ?case by simp
next
  case (Cons m ns)
  from Cons.prems have m: "m \<in> set (NAMED_PARAMS @ [''method''])"
    and ns: "set ns \<subseteq> set (NAMED_PARAMS @ [''method''])" by simp_all
  show ?case
    using Cons.IH [OF ns, of "inherit_attr param self m"] inherit_attr_getattr [OF m, of param self]
    by auto
qed

lemma first_set_skip: "first_set (PyNone # vs) = first_set vs"
  by simp

lemma first_set_keep: "v \<noteq> PyNone \<Longrightarrow> first_set (v # vs) = v"
  by simp

text \<open>What the base merge leaves in an attribute, in one equation.\<close>

lemma BaseParameter_merge_getattr:
  assumes "n \<in> set NAMED_PARAMS"
  shows "getattr (BaseParameter_inherit_type_properties self A) n =
    first_set (getattr self n #
      map (\<lambda>a. getattr a n) (filter (\<lambda>a. parameter.name a = parameter.name self) A))"
proof (induction A arbitrary: self)
  case Nil
  show ?case by simp
next
  case (Cons a A)
  show ?case
  proof (cases "parameter.name a = parameter.name self")
    case False
    then show ?thesis using Cons.IH [of self] by simp
  next
    case True
    let ?s = "foldl (inherit_attr a) self NAMED_PARAMS"
    have nm: "parameter.name ?s = parameter.name self"
      by (rule foldl_inherit_attr_frame)
    have sub: "set NAMED_PARAMS \<subseteq> set (NAMED_PARAMS @ [''method''])"
      by auto
    have g: "getattr ?s n = (if getattr self n = PyNone then getattr a n else getattr self n)"
      using foldl_inherit_attr_getattr [OF sub, of a self n] assms by simp
    have "getattr (BaseParameter_inherit_type_properties self (a # A)) n =
        getattr (BaseParameter_inherit_type_properties ?s A) n"
      using True by simp
    also have "\<dots> = first_set (getattr ?s n #
        map (\<lambda>a. getattr a n) (filter (\<lambda>a. parameter.name a = parameter.name self) A))"
      using Cons.IH [of ?s] nm by simp
    also have "\<dots> = first_set (getattr self n # getattr a n #
        map (\<lambda>a. getattr a n) (filter (\<lambda>a. parameter.name a = parameter.name self) A))"
      using g by simp
    finally show ?thesis using True by simp
  qed
qed

lemma Header_merge_getattr:
  assumes "n \<in> set (NAMED_PARAMS @ [''method''])"
  shows "getattr (Header_inherit_type_properties self A) n =
    first_set (getattr self n # map (\<lambda>a. getattr a n) A)"
proof (induction A arbitrary: self)
  case Nil
  show ?case by simp
next
  case (Cons a A)
  let ?s = "foldl (inherit_attr a) self (NAMED_PARAMS @ [''method''])"
  have g: "getattr ?s n = (if getattr self n = PyNone then getattr a n else getattr self n)"
    using foldl_inherit_attr_getattr [of "NAMED_PARAMS @ [''method'']" a self n] assms by simp
  have "getattr (Header_inherit_type_properties self (a # A)) n =
      getattr (Header_inherit_type_properties ?s A) n"
    by simp
  also have "\<dots> = first_set (getattr ?s n # map (\<lambda>a. getattr a n) A)"
    using Cons.IH [of ?s] by simp
  also have "\<dots> = first_set (getattr self n # getattr a n # map (\<lambda>a. getattr a n) A)"
    using g by simp
  finally show ?case by simp
qed

lemma first_set_find:
  "first_set (map f (filter P A)) =
    (case find (\<lambda>a. P a \<and> f a \<noteq> PyNone) A of None \<Rightarrow> PyNone | Some a \<Rightarrow> f a)"
  by (induction A) simp_all

lemma BaseParameter_merge_frame:
  "cls (BaseParameter_inherit_type_properties self A) = cls self"
  "parameter.name (BaseParameter_inherit_type_properties self A) = parameter.name self"
  "parameter.raw (BaseParameter_inherit_type_properties self A) = parameter.raw self"
  "parameter.config (BaseParameter_inherit_type_properties self A) = parameter.config self"
  "parameter.errors (BaseParameter_inherit_type_properties self A) = parameter.errors self"
  by (induction A arbitrary: self) (simp_all add: foldl_inherit_attr_frame)

lemma BaseParameter_merge_other:
  assumes "n \<notin> set NAMED_PARAMS"
  shows "getattr (BaseParameter_inherit_type_properties self A) n = getattr self n"
proof (induction A arbitrary: self)
  case Nil
  show ?case by simp
next
  case (Cons a A)
  have sub: "set NAMED_PARAMS \<subseteq> set (NAMED_PARAMS @ [''method''])"
    by auto
  have "getattr (foldl (inherit_attr a) self NAMED_PARAMS) n = getattr self n"
    using foldl_inherit_attr_getattr [OF sub, of a self n] assms by simp
  then show ?case
    using Cons.IH [of self] Cons.IH [of "foldl (inherit_attr a) self NAMED_PARAMS"] by simp
qed

lemma Header_merge_frame:
  "cls (Header_inherit_type_properties self A) = cls self"
  "parameter.name (Header_inherit_type_properties self A) = parameter.name self"
  "parameter.raw (Header_inherit_type_properties self A) = parameter.raw self"
  "parameter.config (Header_inherit_type_properties self A) = parameter.config self"
  "parameter.errors (Header_inherit_type_properties self A) = parameter.errors self"
  by (induction A arbitrary: self) (simp_all add: foldl_inherit_attr_frame inherit_attr_frame)

section \<open>The merge on bodies\<close>

lemma getattr_setattr_body_lit:
  "getattr_body (setattr_body b ''schema'' v) n = (if n = ''schema'' then v else getattr_body b n)"
  "getattr_body (setattr_body b ''example'' v) n = (if n = ''example'' then v else getattr_body b n)"
  "getattr_body (setattr_body b ''form_params'' v) n = (if n = ''form_params'' then v else getattr_body b n)"
  by (simp_all add: getattr_body_def setattr_body_def)

lemma getattr_setattr_body:
  assumes "m \<in> set body_params"
  shows "getattr_body (setattr_body b m v) n = (if n = m then v else getattr_body b n)"
proof -
  have "list_all (\<lambda>m. \<forall>b v n. getattr_body (setattr_body b m v) n =
      (if n = m then v else getattr_body b n)) body_params"
    unfolding body_params_def list_all_Cons_iff list_all_Nil_iff
    by (intro conjI allI getattr_setattr_body_lit TrueI)
  then show ?thesis using assms unfolding list_all_iff by blast
qed

lemma setattr_body_frame:
  "mime_type (setattr_body b m v) = mime_type b"
  "body.raw (setattr_body b m v) = body.raw b"
  "body.config (setattr_body b m v) = body.config b"
  "body.errors (setattr_body b m v) = body.errors b"
  by (simp_all add: setattr_body_def)

lemma foldl_inherit_attr_body_frame:
  "mime_type (foldl (inherit_attr_body param) self ns) = mime_type self"
  "body.raw (foldl (inherit_attr_body param) self ns) = body.raw self"
  "body.config (foldl (inherit_attr_body param) self ns) = body.config self"
  "body.errors (foldl (inherit_attr_body param) self ns) = body.errors self"
  by (induction ns arbitrary: self)
     (simp_all add: inherit_attr_body_def Let_def setattr_body_frame)

lemma inherit_attr_body_getattr:
  assumes "m \<in> set body_params"
  shows "getattr_body (inherit_attr_body param self m) n =
    (if n = m \<and> getattr_body self m = PyNone then getattr_body param m else getattr_body self n)"
  using assms by (simp add: inherit_attr_body_def Let_def getattr_setattr_body)

lemma foldl_inherit_attr_body_getattr:
  assumes "set ns \<subseteq> set body_params"
  shows "getattr_body (foldl (inherit_attr_body param) self ns) n =
    (if n \<in> set ns \<and> getattr_body self n = PyNone then getattr_body param n
     else getattr_body self n)"
  using assms
proof (induction ns arbitrary: self)
  case Nil
  show ?case by simp
next
  case (Cons m ns)
  from Cons.prems have m: "m \<in> set body_params" and ns: "set ns \<subseteq> set body_params"
    by simp_all
  show ?case
    using Cons.IH [OF ns, of "inherit_attr_body param self m"]
      inherit_attr_body_getattr [OF m, of param self]
    by auto
qed

lemma Body_merge_getattr:
  assumes "n \<in> set body_params"
  shows "getattr_body (Body_inherit_type_properties self A) n =
    first_set (getattr_body self n #
      map (\<lambda>a. getattr_body a n) (filter (\<lambda>a. mime_type a = mime_type self) A))"
proof (induction A arbitrary: self)
  case Nil
  show ?case by simp
next
  case (Cons a A)
  show ?case
  proof (cases "mime_type a = mime_type self")
    case False
    then show ?thesis using Cons.IH [of self] by simp
  next
    case True
    let ?s = "foldl (inherit_attr_body a) self body_params"
    have nm: "mime_type ?s = mime_type self"
      by (rule foldl_inherit_attr_body_frame)
    have g: "getattr_body ?s n =
        (if getattr_body self n = PyNone then getattr_body a n else getattr_body self n)"
      using foldl_inherit_attr_body_getattr [of body_params a self n] assms by simp
    have "getattr_body (Body_inherit_type_properties self (a # A)) n =
        getattr_body (Body_inherit_type_properties ?s A) n"
      using True by simp
    also have "\<dots> = first_set (getattr_body ?s n #
        map (\<lambda>a. getattr_body a n) (filter (\<lambda>a. mime_type a = mime_type self) A))"
      using Cons.IH [of ?s] nm by simp
    also have "\<dots> = first_set (getattr_body self n # getattr_body a n #
        map (\<lambda>a. getattr_body a n) (filter (\<lambda>a. mime_type a = mime_type self) A))"
      using g by simp
    finally show ?thesis using True by simp
  qed
qed

lemma Body_merge_frame:
  "mime_type (Body_inherit_type_properties self A) = mime_type self"
  "body.raw (Body_inherit_type_properties self A) = body.raw self"
  "body.config (Body_inherit_type_properties self A) = body.config self"
  "body.errors (Body_inherit_type_properties self A) = body.errors self"
  by (induction A arbitrary: self) (simp_all add: foldl_inherit_attr_body_frame)

section \<open>Construction and normalization\<close>

lemma new_parameter_Inr:
  "new_parameter V inst st = Inr (p, st') \<Longrightarrow> p = inst \<and> cls inst \<noteq> BaseParameter"
  by (auto simp: new_parameter_def split: if_splits sum.splits)

lemma new_body_Inr: "new_body V inst st = Inr (b, st') \<Longrightarrow> b = inst"
  by (auto simp: new_body_def split: sum.splits)

lemma new_response_Inr: "new_response V inst st = Inr (r, st') \<Longrightarrow> r = inst"
  by (auto simp: new_response_def split: sum.splits)

lemma BaseParameter_get_unset:
  "BaseParameter_get PyNone item dflt = dflt"
  "BaseParameter_get (PyDict []) item dflt = dflt"
  by (simp_all add: BaseParameter_get_def dict_get_def)

lemma BaseParameter_get_undeclared:
  "\<not> declares d item \<Longrightarrow> BaseParameter_get d item dflt = dflt"
  by (cases d) (simp_all add: BaseParameter_get_def dict_get_def declares_def)

lemma BaseParameter_init_fields:
  assumes "BaseParameter_init V c n d cf er kw st = Inr (p, st')"
  shows "cls p = c" and "parameter.name p = n" and "parameter.raw p = PyDict [(n, d)]"
    and "required p = BaseParameter_get d ''required'' (PyBool (c = URIParameter))"
    and "parameter.errors p = errors_or BaseParameter_init_errors er"
    and "c \<noteq> BaseParameter"
  using new_parameter_Inr [OF assms [unfolded BaseParameter_init_def Let_def]]
  by auto

lemma Body_init_fields:
  assumes "Body_init V n d cf er kw st = Inr (b, st')"
  shows "mime_type b = n" and "body.raw b = d"
    and "body.errors b = errors_or Body_init_errors er"
  using new_body_Inr [OF assms [unfolded Body_init_def Let_def]]
  by auto

lemma Response_init_fields:
  assumes "Response_init V n d cf er kw st = Inr (r, st')"
  shows "code r = n" and "response.raw r = d"
    and "response.errors r = errors_or Response_init_errors er"
  using assms
  by (auto simp: Response_init_def split: pyval.splits sum.splits dest!: new_response_Inr)

text \<open>With validators that let unset values pass, a missing declaration is accepted.\<close>

lemma new_parameter_defaults:
  assumes "cls inst \<noteq> BaseParameter"
    and "parameter.raw inst = PyDict rw" and "parameter.config inst = PyDict kvs"
    and "min_length inst = PyNone" and "max_length inst = PyNone"
    and "minimum inst = PyNone" and "maximum inst = PyNone"
    and "pattern inst = PyNone" and "enum inst = PyNone"
    and "parameter.type inst = PyStr ''string''"
    and "\<And>i a. string_type_parameter V i a PyNone = Accept"
    and "\<And>i a. integer_number_type_parameter V i a PyNone = Accept"
    and "\<And>i a. header_type V i a (PyStr ''string'') = Accept"
  shows "new_parameter V inst st = Inr (inst, st)"
  using assms by (simp add: new_parameter_def instance_of_dict_def)

section \<open>Lists of responses\<close>

lemma Response_init_each_codes:
  "Response_init_each V items cf er kw st = Inr (us, st') \<Longrightarrow> map code us = map fst items"
proof (induction items arbitrary: us st)
  case Nil
  then show ?case by simp
next
  case (Cons kv items)
  obtain k v where kv: "kv = (k, v)"
    by (cases kv)
  from Cons.prems obtain u st1 us' where
    u: "Response_init V k v cf (Some er) kw st = Inr (u, st1)"
    and us': "Response_init_each V items cf er kw st1 = Inr (us', st')"
    and us: "us = u # us'"
    unfolding kv by (auto split: sum.splits)
  show ?case
    using Cons.IH [OF us'] Response_init_fields(1) [OF u] us kv by simp
qed

lemma filter_sort_key_stable:
  "filter (\<lambda>x. g x = c) (sort_key (\<lambda>x. f (g x)) xs) = filter (\<lambda>x. g x = c) xs"
proof -
  have "filter (\<lambda>x. g x = c) ys = filter (\<lambda>x. g x = c) (filter (\<lambda>x. f (g x) = f c) ys)" for ys
    by (induction ys) auto
  then show ?thesis
    by (metis sort_key_stable)
qed

lemma sorted_wrt_code_le_int:
  assumes "list_all (\<lambda>x. is_KInt (code x)) us"
  shows "sorted_wrt code_le (map code (sort_key (\<lambda>x. int_of (code x)) us))"
proof -
  let ?rs = "sort_key (\<lambda>x. int_of (code x)) us"
  have "sorted (map (\<lambda>x. int_of (code x)) ?rs)"
    by (rule sorted_sort_key)
  then have s: "sorted_wrt (\<lambda>x y. int_of (code x) \<le> int_of (code y)) ?rs"
    unfolding sorted_wrt_map .
  have m: "code_le (code x) (code y)"
    if "x \<in> set ?rs" "y \<in> set ?rs" "int_of (code x) \<le> int_of (code y)" for x y
  proof -
    from that(1,2) have "x \<in> set us" "y \<in> set us"
      by simp_all
    with assms have "is_KInt (code x)" "is_KInt (code y)"
      unfolding list_all_iff by blast+
    then show ?thesis
      using that(3) by (cases "code x"; cases "code y") simp_all
  qed
  have "sorted_wrt (\<lambda>x y. code_le (code x) (code y)) ?rs"
    by (rule sorted_wrt_mono_rel [OF m s])
  then show ?thesis
    unfolding sorted_wrt_map .
qed

lemma sorted_wrt_code_le_str:
  assumes "list_all (\<lambda>x. is_KStr (code x)) us"
  shows "sorted_wrt code_le (map code (sort_key (\<lambda>x. str_of (code x)) us))"
proof -
  let ?rs = "sort_key (\<lambda>x. str_of (code x)) us"
  have "sorted (map (\<lambda>x. str_of (code x)) ?rs)"
    by (rule sorted_sort_key)
  then have s: "sorted_wrt (\<lambda>x y. str_of (code x) \<le> str_of (code y)) ?rs"
    unfolding sorted_wrt_map .
  have m: "code_le (code x) (code y)"
    if "x \<in> set ?rs" "y \<in> set ?rs" "str_of (code x) \<le> str_of (code y)" for x y
  proof -
    from that(1,2) have "x \<in> set us" "y \<in> set us"
      by simp_all
    with assms have "is_KStr (code x)" "is_KStr (code y)"
      unfolding list_all_iff by blast+
    then show ?thesis
      using that(3) by (cases "code x"; cases "code y") simp_all
  qed
  have "sorted_wrt (\<lambda>x y. code_le (code x) (code y)) ?rs"
    by (rule sorted_wrt_mono_rel [OF m s])
  then show ?thesis
    unfolding sorted_wrt_map .
qed

lemma sorted_by_code_Inr:
  assumes "list_all (\<lambda>x. is_KInt (code x)) us \<or> list_all (\<lambda>x. is_KStr (code x)) us"
  shows "\<exists>rs. sorted_by_code us = Inr rs \<and> sorted_wrt code_le (map code rs)
    \<and> mset rs = mset us \<and> (\<forall>c. filter (\<lambda>x. code x = c) rs = filter (\<lambda>x. code x = c) us)"
proof (cases "list_all (\<lambda>x. is_KInt (code x)) us")
  case True
  then have "sorted_by_code us = Inr (sort_key (\<lambda>x. int_of (code x)) us)"
    by (simp add: sorted_by_code_def)
  then show ?thesis
    using sorted_wrt_code_le_int [OF True] filter_sort_key_stable [of code _ int_of us]
    by simp
next
  case False
  with assms have str: "list_all (\<lambda>x. is_KStr (code x)) us"
    by blast
  with False have "sorted_by_code us = Inr (sort_key (\<lambda>x. str_of (code x)) us)"
    by (simp add: sorted_by_code_def)
  then show ?thesis
    using sorted_wrt_code_le_str [OF str] filter_sort_key_stable [of code _ str_of us]
    by simp
qed

section \<open>Properties of the inheritance merge\<close>

text \<open>
  C1. The merge never overwrites a locally set value: for every inheritable attribute
  of \<open>NAMED_PARAMS\<close>, a value that is not \<^verbatim>\<open>None\<close> before the merge is the value after
  it, whatever the ancestors are, in the base merge, in the one of \<^verbatim>\<open>Header\<close>, and so
  in the one a record runs by its class.
\<close>

theorem merge_keeps_local_values:
  assumes "n \<in> set NAMED_PARAMS" and "getattr self n \<noteq> PyNone"
  shows "getattr (BaseParameter_inherit_type_properties self inherited_param) n = getattr self n
       \<and> getattr (Header_inherit_type_properties self inherited_param) n = getattr self n
       \<and> getattr (inherit_type_properties self inherited_param) n = getattr self n"
proof -
  from assms(1) have "n \<in> set (NAMED_PARAMS @ [''method''])"
    by simp
  then show ?thesis
    using assms BaseParameter_merge_getattr [of n self inherited_param]
      Header_merge_getattr [of n self inherited_param]
    by (simp add: inherit_type_properties_def)
qed

theorem merge_keeps_local_values_witness:
  "''type'' \<in> set NAMED_PARAMS
   \<and> getattr ((unset_parameter QueryParameter (KStr ''id''))\<lparr>parameter.type := PyStr ''string''\<rparr>)
        ''type'' \<noteq> PyNone
   \<and> getattr (BaseParameter_inherit_type_properties
        ((unset_parameter QueryParameter (KStr ''id''))\<lparr>parameter.type := PyStr ''string''\<rparr>)
        [(unset_parameter QueryParameter (KStr ''id''))\<lparr>parameter.type := PyStr ''integer''\<rparr>])
        ''type'' = PyStr ''string''"
proof -
  let ?r = "(unset_parameter QueryParameter (KStr ''id''))\<lparr>parameter.type := PyStr ''string''\<rparr>"
  let ?a = "(unset_parameter QueryParameter (KStr ''id''))\<lparr>parameter.type := PyStr ''integer''\<rparr>"
  have h1: "''type'' \<in> set NAMED_PARAMS"
    by (simp add: NAMED_PARAMS_def)
  have g: "getattr ?r ''type'' = PyStr ''string''"
    by (simp add: getattr_def)
  then have h2: "getattr ?r ''type'' \<noteq> PyNone"
    by simp
  from merge_keeps_local_values [OF h1 h2, of "[?a]"] g
  have "getattr (BaseParameter_inherit_type_properties ?r [?a]) ''type'' = PyStr ''string''"
    by simp
  with h1 h2 show ?thesis by simp
qed

text \<open>
  C2. The base merge fills an unset attribute from the nearest matching ancestor: the
  attribute ends as the value it has in the first ancestor whose name is the record's
  name and where it is set, and stays unset when no ancestor has the name or none of
  those has the attribute set.
\<close>

theorem merge_fills_from_nearest_matching_ancestor:
  assumes "n \<in> set NAMED_PARAMS" and "getattr self n = PyNone"
  shows "getattr (BaseParameter_inherit_type_properties self inherited_param) n =
           nearest (\<lambda>a. parameter.name a = parameter.name self) n inherited_param
       \<and> (list_all (\<lambda>a. parameter.name a \<noteq> parameter.name self \<or> getattr a n = PyNone)
             inherited_param \<longrightarrow>
           getattr (BaseParameter_inherit_type_properties self inherited_param) n = PyNone)"
proof -
  have eq: "getattr (BaseParameter_inherit_type_properties self inherited_param) n =
      nearest (\<lambda>a. parameter.name a = parameter.name self) n inherited_param"
    using BaseParameter_merge_getattr [OF assms(1), of self inherited_param] assms(2)
    by (simp add: nearest_def first_set_find)
  have "find (\<lambda>a. parameter.name a = parameter.name self \<and> getattr a n \<noteq> PyNone)
      inherited_param = None"
    if "list_all (\<lambda>a. parameter.name a \<noteq> parameter.name self \<or> getattr a n = PyNone)
      inherited_param"
    using that by (auto simp: find_None_iff list_all_iff)
  then show ?thesis
    using eq by (simp add: nearest_def)
qed

theorem merge_fills_from_nearest_matching_ancestor_witness:
  "''type'' \<in> set NAMED_PARAMS
   \<and> getattr (unset_parameter QueryParameter (KStr ''id'')) ''type'' = PyNone
   \<and> getattr (BaseParameter_inherit_type_properties
        (unset_parameter QueryParameter (KStr ''id''))
        [(unset_parameter QueryParameter (KStr ''page''))\<lparr>parameter.type := PyStr ''string''\<rparr>,
         (unset_parameter QueryParameter (KStr ''id''))\<lparr>parameter.type := PyStr ''integer''\<rparr>])
        ''type'' = PyStr ''integer''
   \<and> list_all (\<lambda>a. parameter.name a \<noteq> parameter.name (unset_parameter QueryParameter (KStr ''id''))
          \<or> getattr a ''type'' = PyNone)
        [(unset_parameter QueryParameter (KStr ''page''))\<lparr>parameter.type := PyStr ''string''\<rparr>]
   \<and> getattr (BaseParameter_inherit_type_properties
        (unset_parameter QueryParameter (KStr ''id''))
        [(unset_parameter QueryParameter (KStr ''page''))\<lparr>parameter.type := PyStr ''string''\<rparr>])
        ''type'' = PyNone"
proof -
  let ?r = "unset_parameter QueryParameter (KStr ''id'')"
  let ?a1 = "(unset_parameter QueryParameter (KStr ''page''))\<lparr>parameter.type := PyStr ''string''\<rparr>"
  let ?a2 = "(unset_parameter QueryParameter (KStr ''id''))\<lparr>parameter.type := PyStr ''integer''\<rparr>"
  have h1: "''type'' \<in> set NAMED_PARAMS"
    by (simp add: NAMED_PARAMS_def)
  have h2: "getattr ?r ''type'' = PyNone"
    by (simp add: getattr_def unset_parameter_def)
  have n: "nearest (\<lambda>a. parameter.name a = parameter.name ?r) ''type'' [?a1, ?a2] = PyStr ''integer''"
    by (simp add: nearest_def getattr_def unset_parameter_def)
  from merge_fills_from_nearest_matching_ancestor [OF h1 h2, of "[?a1, ?a2]"] n
  have filled: "getattr (BaseParameter_inherit_type_properties ?r [?a1, ?a2]) ''type'' =
      PyStr ''integer''"
    by simp
  have h3: "list_all (\<lambda>a. parameter.name a \<noteq> parameter.name ?r \<or> getattr a ''type'' = PyNone) [?a1]"
    by (simp add: unset_parameter_def)
  from merge_fills_from_nearest_matching_ancestor [OF h1 h2, of "[?a1]"] h3
  have unset: "getattr (BaseParameter_inherit_type_properties ?r [?a1]) ''type'' = PyNone"
    by blast
  from h1 h2 filled h3 unset show ?thesis
    by blast
qed

text \<open>
  C3. The identity match differs by kind. The merge of \<^verbatim>\<open>Header\<close> has no name filter:
  every attribute of \<open>NAMED_PARAMS\<close>, and \<^verbatim>\<open>method\<close> as well, is taken from the first
  ancestor of the whole list that has it set; the base merge leaves \<^verbatim>\<open>method\<close> alone.
  The merge of \<^verbatim>\<open>Body\<close> looks only at ancestors of the record's MIME type, fills
  \<^verbatim>\<open>schema\<close>, \<^verbatim>\<open>example\<close> and \<^verbatim>\<open>form_params\<close>, and changes nothing else.
\<close>

theorem identity_match_rule_by_kind:
  "(n \<in> set (NAMED_PARAMS @ [''method'']) \<longrightarrow>
      getattr (Header_inherit_type_properties self inherited_param) n =
        (if getattr self n \<noteq> PyNone then getattr self n
         else nearest (\<lambda>a. True) n inherited_param))
   \<and> getattr (BaseParameter_inherit_type_properties self inherited_param) ''method'' =
        getattr self ''method''
   \<and> (m \<in> set body_params \<longrightarrow>
      getattr_body (Body_inherit_type_properties b inherited_body) m =
        (if getattr_body b m \<noteq> PyNone then getattr_body b m
         else nearest_body (\<lambda>a. mime_type a = mime_type b) m inherited_body))
   \<and> mime_type (Body_inherit_type_properties b inherited_body) = mime_type b
   \<and> body.raw (Body_inherit_type_properties b inherited_body) = body.raw b
   \<and> body.config (Body_inherit_type_properties b inherited_body) = body.config b
   \<and> body.errors (Body_inherit_type_properties b inherited_body) = body.errors b"
proof -
  have hdr: "getattr (Header_inherit_type_properties self inherited_param) n =
      (if getattr self n \<noteq> PyNone then getattr self n
       else nearest (\<lambda>a. True) n inherited_param)"
    if "n \<in> set (NAMED_PARAMS @ [''method''])"
    using Header_merge_getattr [OF that, of self inherited_param]
      first_set_find [of "\<lambda>a. getattr a n" "\<lambda>a. True" inherited_param]
    by (simp add: nearest_def)
  have base: "getattr (BaseParameter_inherit_type_properties self inherited_param) ''method'' =
      getattr self ''method''"
    by (rule BaseParameter_merge_other) (simp add: NAMED_PARAMS_def)
  have bdy: "getattr_body (Body_inherit_type_properties b inherited_body) m =
      (if getattr_body b m \<noteq> PyNone then getattr_body b m
       else nearest_body (\<lambda>a. mime_type a = mime_type b) m inherited_body)"
    if "m \<in> set body_params"
    using Body_merge_getattr [OF that, of b inherited_body]
    by (simp add: nearest_body_def first_set_find)
  show ?thesis
    using hdr base bdy by (simp add: Body_merge_frame)
qed

theorem identity_match_rule_by_kind_witness:
  "''method'' \<in> set (NAMED_PARAMS @ [''method''])
   \<and> getattr (Header_inherit_type_properties (unset_parameter Header (KStr ''X-Trace''))
        [(unset_parameter Header (KStr ''X-Other''))\<lparr>parameter.method' := PyStr ''get''\<rparr>])
        ''method'' = PyStr ''get''
   \<and> ''schema'' \<in> set body_params
   \<and> getattr_body (Body_inherit_type_properties (unset_body (KStr ''application/json''))
        [(unset_body (KStr ''text/xml''))\<lparr>schema := PyStr ''xsd''\<rparr>,
         (unset_body (KStr ''application/json''))\<lparr>schema := PyStr ''json''\<rparr>])
        ''schema'' = PyStr ''json''"
proof -
  let ?h = "unset_parameter Header (KStr ''X-Trace'')"
  let ?a = "(unset_parameter Header (KStr ''X-Other''))\<lparr>parameter.method' := PyStr ''get''\<rparr>"
  let ?b = "unset_body (KStr ''application/json'')"
  let ?b1 = "(unset_body (KStr ''text/xml''))\<lparr>schema := PyStr ''xsd''\<rparr>"
  let ?b2 = "(unset_body (KStr ''application/json''))\<lparr>schema := PyStr ''json''\<rparr>"
  have h1: "''method'' \<in> set (NAMED_PARAMS @ [''method''])"
    by simp
  have h2: "''schema'' \<in> set body_params"
    by (simp add: body_params_def)
  have e1: "(if getattr ?h ''method'' \<noteq> PyNone then getattr ?h ''method''
      else nearest (\<lambda>a. True) ''method'' [?a]) = PyStr ''get''"
    by (simp add: nearest_def getattr_def unset_parameter_def)
  have e2: "(if getattr_body ?b ''schema'' \<noteq> PyNone then getattr_body ?b ''schema''
      else nearest_body (\<lambda>a. mime_type a = mime_type ?b) ''schema'' [?b1, ?b2]) = PyStr ''json''"
    by (simp add: nearest_body_def getattr_body_def unset_body_def)
  from identity_match_rule_by_kind [of "''method''" ?h "[?a]" "''schema''" ?b "[?b1, ?b2]"]
    h1 h2 e1 e2
  show ?thesis by simp
qed

section \<open>Properties of normalization\<close>

text \<open>
  C4. Required-ness defaults by kind: when the declaration does not write
  \<^verbatim>\<open>required\<close> (a declaration that is \<^verbatim>\<open>None\<close> or empty included), the record
  \<^verbatim>\<open>init\<close> returns has \<^verbatim>\<open>required\<close> true for \<^verbatim>\<open>URIParameter\<close> and false for
  \<^verbatim>\<open>QueryParameter\<close>, \<^verbatim>\<open>FormParameter\<close> and \<^verbatim>\<open>Header\<close>, whatever the validators
  are.
\<close>

theorem required_default_by_kind:
  assumes "BaseParameter_init V cls' name' data' config' errors' kwargs st = Inr (p, st')"
    and "\<not> declares data' ''required''"
  shows "required p = PyBool (cls' = URIParameter) \<and> cls p = cls'
       \<and> cls' \<in> {URIParameter, QueryParameter, FormParameter, Header}"
proof -
  have "cls' \<noteq> BaseParameter"
    using BaseParameter_init_fields(6) [OF assms(1)] .
  then have "cls' \<in> {URIParameter, QueryParameter, FormParameter, Header}"
    by (cases cls') simp_all
  then show ?thesis
    using BaseParameter_init_fields(1,4) [OF assms(1)] BaseParameter_get_undeclared [OF assms(2)]
    by simp
qed

theorem required_default_by_kind_witness:
  "(\<exists>p st'. BaseParameter_init (spec_collaborators False) URIParameter (KStr ''id'') PyNone
        (PyDict []) None [] (\<lambda>r. []) = Inr (p, st')
      \<and> \<not> declares PyNone ''required'' \<and> required p = PyBool True)
   \<and> (\<exists>p st'. BaseParameter_init (spec_collaborators False) QueryParameter (KStr ''page'')
        (PyDict [(KStr ''type'', PyStr ''integer'')]) (PyDict []) None [] (\<lambda>r. []) = Inr (p, st')
      \<and> \<not> declares (PyDict [(KStr ''type'', PyStr ''integer'')]) ''required''
      \<and> required p = PyBool False)"
proof -
  let ?V = "spec_collaborators False"
  let ?d = "PyDict [(KStr ''type'', PyStr ''integer'')]"
  have n1: "\<not> declares PyNone ''required''" and n2: "\<not> declares ?d ''required''"
    by (simp_all add: declares_def)
  have "\<exists>p st'. BaseParameter_init ?V URIParameter (KStr ''id'') PyNone (PyDict []) None []
      (\<lambda>r. []) = Inr (p, st')"
    by (simp add: BaseParameter_init_def new_parameter_def BaseParameter_get_def
        instance_of_dict_def spec_collaborators_def spec_string_type_parameter_def
        spec_integer_number_type_parameter_def)
  then obtain p1 s1 where e1: "BaseParameter_init ?V URIParameter (KStr ''id'') PyNone
      (PyDict []) None [] (\<lambda>r. []) = Inr (p1, s1)"
    by blast
  have "\<exists>p st'. BaseParameter_init ?V QueryParameter (KStr ''page'') ?d (PyDict []) None []
      (\<lambda>r. []) = Inr (p, st')"
    by (simp add: BaseParameter_init_def new_parameter_def BaseParameter_get_def dict_get_def
        instance_of_dict_def spec_collaborators_def spec_string_type_parameter_def
        spec_integer_number_type_parameter_def)
  then obtain p2 s2 where e2: "BaseParameter_init ?V QueryParameter (KStr ''page'') ?d
      (PyDict []) None [] (\<lambda>r. []) = Inr (p2, s2)"
    by blast
  from required_default_by_kind [OF e1 n1] have r1: "required p1 = PyBool True"
    by simp
  from required_default_by_kind [OF e2 n2] have r2: "required p2 = PyBool False"
    by simp
  from e1 n1 r1 e2 n2 r2 show ?thesis
    by blast
qed

text \<open>
  C7. Normalization keeps the raw declaration: a record returned by \<^verbatim>\<open>init\<close> has
  \<^verbatim>\<open>raw\<close> equal to \<^verbatim>\<open>{name: declaration}\<close> for the named parameter kinds and to the
  declaration itself for \<^verbatim>\<open>Body\<close> and \<^verbatim>\<open>Response\<close>, whatever the validators and the
  defaults are.
\<close>

theorem raw_is_the_declaration:
  "(BaseParameter_init V cls' name' data' config' errors' kwargs st = Inr (p, st1) \<longrightarrow>
      parameter.raw p = PyDict [(name', data')])
   \<and> (Body_init V name' data' config' errors' kwargs st = Inr (b, st2) \<longrightarrow>
      body.raw b = data')
   \<and> (Response_init V name' data' config' errors' kwargs st = Inr (r, st3) \<longrightarrow>
      response.raw r = data')"
  using BaseParameter_init_fields(3) [of V cls' name' data' config' errors' kwargs st p st1]
    Body_init_fields(2) [of V name' data' config' errors' kwargs st b st2]
    Response_init_fields(2) [of V name' data' config' errors' kwargs st r st3]
  by blast

theorem raw_is_the_declaration_witness:
  "(\<exists>p st'. BaseParameter_init (spec_collaborators False) Header (KStr ''X-Rate'')
        (PyDict [(KStr ''type'', PyStr ''integer'')]) (PyDict []) None [] (\<lambda>r. []) = Inr (p, st')
      \<and> parameter.raw p = PyDict [(KStr ''X-Rate'', PyDict [(KStr ''type'', PyStr ''integer'')])])
   \<and> (\<exists>b st'. Body_init (spec_collaborators False) (KStr ''application/json'')
        (PyDict [(KStr ''schema'', PyStr ''{}'')]) (PyDict []) None [] (\<lambda>r. []) = Inr (b, st')
      \<and> body.raw b = PyDict [(KStr ''schema'', PyStr ''{}'')])
   \<and> (\<exists>r st'. Response_init (spec_collaborators False) (KInt 200)
        (PyDict [(KStr ''description'', PyStr ''ok'')]) (PyDict []) None [] (\<lambda>r. []) = Inr (r, st')
      \<and> response.raw r = PyDict [(KStr ''description'', PyStr ''ok'')])"
proof -
  let ?V = "spec_collaborators False"
  let ?d1 = "PyDict [(KStr ''type'', PyStr ''integer'')]"
  let ?d2 = "PyDict [(KStr ''schema'', PyStr ''{}'')]"
  let ?d3 = "PyDict [(KStr ''description'', PyStr ''ok'')]"
  have "\<exists>p st'. BaseParameter_init ?V Header (KStr ''X-Rate'') ?d1 (PyDict []) None []
      (\<lambda>r. []) = Inr (p, st')"
    by (simp add: BaseParameter_init_def new_parameter_def BaseParameter_get_def dict_get_def
        instance_of_dict_def spec_collaborators_def spec_string_type_parameter_def
        spec_integer_number_type_parameter_def)
  then obtain p s1 where e1: "BaseParameter_init ?V Header (KStr ''X-Rate'') ?d1 (PyDict [])
      None [] (\<lambda>r. []) = Inr (p, s1)"
    by blast
  have "\<exists>b st'. Body_init ?V (KStr ''application/json'') ?d2 (PyDict []) None []
      (\<lambda>r. []) = Inr (b, st')"
    by (simp add: Body_init_def new_body_def instance_of_dict_def spec_collaborators_def)
  then obtain b s2 where e2: "Body_init ?V (KStr ''application/json'') ?d2 (PyDict []) None []
      (\<lambda>r. []) = Inr (b, s2)"
    by blast
  have "\<exists>r st'. Response_init ?V (KInt 200) ?d3 (PyDict []) None [] (\<lambda>r. []) = Inr (r, st')"
    by (simp add: Response_init_def BaseParameter_init_list_def Body_init_list_def
        iteritems_def dict_get_def new_response_def instance_of_dict_def
        spec_collaborators_def)
  then obtain r s3 where e3: "Response_init ?V (KInt 200) ?d3 (PyDict []) None []
      (\<lambda>r. []) = Inr (r, s3)"
    by blast
  from raw_is_the_declaration [of ?V Header "KStr ''X-Rate''" ?d1 "PyDict []" None "[]"
      "\<lambda>r. []" p s1 b s2 r s3] e1
  have r1: "parameter.raw p = PyDict [(KStr ''X-Rate'', ?d1)]"
    by blast
  from raw_is_the_declaration [of ?V Header "KStr ''application/json''" ?d2 "PyDict []" None
      "[]" "\<lambda>r. []" p s1 b s2 r s3] e2
  have r2: "body.raw b = ?d2"
    by blast
  from raw_is_the_declaration [of ?V Header "KInt 200" ?d3 "PyDict []" None "[]" "\<lambda>r. []"
      p s1 b s2 r s3] e3
  have r3: "response.raw r = ?d3"
    by blast
  from e1 r1 e2 r2 e3 r3 show ?thesis
    by blast
qed

text \<open>
  C9. Normalization tolerates a missing declaration. \<^verbatim>\<open>_get\<close> is total: it returns the
  caller's default when the declaration is \<^verbatim>\<open>None\<close> and when it does not hold the
  key. So \<^verbatim>\<open>init\<close> on a declaration that is \<^verbatim>\<open>None\<close> or \<^verbatim>\<open>{}\<close> returns a record,
  with \<^verbatim>\<open>type\<close> \<^verbatim>\<open>"string"\<close>, \<^verbatim>\<open>repeat\<close> false, \<^verbatim>\<open>display_name\<close> the name and the
  optional fields unset, and records no diagnostic. This is for a concrete parameter
  class, a configuration that is a mapping and validators that let an unset value and
  the type \<^verbatim>\<open>"string"\<close> pass.
\<close>

theorem init_tolerates_missing_declaration:
  assumes "data' = PyNone \<or> data' = PyDict []"
    and "cls' \<noteq> BaseParameter"
    and "config' = PyDict kvs"
    and "\<And>i a. string_type_parameter V i a PyNone = Accept"
    and "\<And>i a. integer_number_type_parameter V i a PyNone = Accept"
    and "\<And>i a. header_type V i a (PyStr ''string'') = Accept"
  shows "BaseParameter_get PyNone item dflt = dflt
       \<and> (\<not> declares d item \<longrightarrow> BaseParameter_get d item dflt = dflt)
       \<and> (\<exists>p. BaseParameter_init V cls' name' data' config' errors' kwargs st = Inr (p, st)
            \<and> parameter.type p = PyStr ''string'' \<and> repeat p = PyBool False
            \<and> display_name p = of_key name'
            \<and> required p = PyBool (cls' = URIParameter)
            \<and> parameter.desc p = PyNone \<and> min_length p = PyNone \<and> max_length p = PyNone
            \<and> minimum p = PyNone \<and> maximum p = PyNone \<and> parameter.example p = PyNone
            \<and> default p = PyNone \<and> pattern p = PyNone \<and> enum p = PyNone)"
proof -
  have g: "BaseParameter_get data' k v = v" for k v
    using assms(1) BaseParameter_get_unset by auto
  have "BaseParameter_init V cls' name' data' config' errors' kwargs st =
      Inr (\<lparr>cls = cls', name = name', raw = PyDict [(name', data')], desc = PyNone,
        display_name = of_key name', min_length = PyNone, max_length = PyNone,
        minimum = PyNone, maximum = PyNone, example = PyNone, default = PyNone,
        config = config', errors = errors_or BaseParameter_init_errors errors',
        repeat = PyBool False, pattern = PyNone, enum = PyNone,
        required = PyBool (cls' = URIParameter), type = PyStr ''string'',
        method' = (if cls' = Header then dict_get kwargs ''method'' PyNone else PyNone)\<rparr>, st)"
    unfolding BaseParameter_init_def Let_def g
    using assms(2-6) by (subst new_parameter_defaults) auto
  then show ?thesis
    using BaseParameter_get_unset(1) BaseParameter_get_undeclared by auto
qed

theorem init_tolerates_missing_declaration_witness:
  "(PyDict [] = PyNone \<or> PyDict [] = PyDict [])
   \<and> Header \<noteq> BaseParameter
   \<and> (\<forall>i a. string_type_parameter (spec_collaborators True) i a PyNone = Accept)
   \<and> (\<forall>i a. integer_number_type_parameter (spec_collaborators True) i a PyNone = Accept)
   \<and> (\<forall>i a. header_type (spec_collaborators True) i a (PyStr ''string'') = Accept)
   \<and> (\<exists>p. BaseParameter_init (spec_collaborators True) Header (KStr ''X-Rate'') (PyDict [])
          (PyDict []) (Some (Addr 0)) [] (\<lambda>r. []) = Inr (p, \<lambda>r. [])
        \<and> parameter.type p = PyStr ''string'' \<and> repeat p = PyBool False
        \<and> display_name p = PyStr ''X-Rate'' \<and> required p = PyBool False)
   \<and> \<not> declares (PyDict [(KStr ''type'', PyStr ''integer'')]) ''repeat''
   \<and> BaseParameter_get (PyDict [(KStr ''type'', PyStr ''integer'')]) ''repeat'' (PyBool False)
        = PyBool False"
proof -
  let ?V = "spec_collaborators True"
  have h1: "PyDict [] = PyNone \<or> PyDict [] = PyDict []" and h2: "Header \<noteq> BaseParameter"
    by simp_all
  have h4: "\<And>i a. string_type_parameter ?V i a PyNone = Accept"
    and h5: "\<And>i a. integer_number_type_parameter ?V i a PyNone = Accept"
    and h6: "\<And>i a. header_type ?V i a (PyStr ''string'') = Accept"
    by (simp_all add: spec_collaborators_def spec_string_type_parameter_def
        spec_integer_number_type_parameter_def)
  have h7: "\<not> declares (PyDict [(KStr ''type'', PyStr ''integer'')]) ''repeat''"
    by (simp add: declares_def)
  note inst = init_tolerates_missing_declaration [of "PyDict []" Header "PyDict []" "[]" ?V
      "''repeat''" "PyBool False" "PyDict [(KStr ''type'', PyStr ''integer'')]"
      "KStr ''X-Rate''" "Some (Addr 0)" "[]" "\<lambda>r. []", OF h1 h2 refl h4 h5 h6]
  from inst
  have made: "\<exists>p. BaseParameter_init ?V Header (KStr ''X-Rate'') (PyDict []) (PyDict [])
        (Some (Addr 0)) [] (\<lambda>r. []) = Inr (p, \<lambda>r. [])
      \<and> parameter.type p = PyStr ''string'' \<and> repeat p = PyBool False
      \<and> display_name p = PyStr ''X-Rate'' \<and> required p = PyBool False"
    by auto
  from inst h7
  have got: "BaseParameter_get (PyDict [(KStr ''type'', PyStr ''integer'')]) ''repeat''
      (PyBool False) = PyBool False"
    by blast
  from h1 h2 h4 h5 h6 made h7 got show ?thesis
    by blast
qed

section \<open>Properties of the list builders\<close>

text \<open>
  C5. \<^verbatim>\<open>init_list\<close> on an empty mapping: the builder of the parameter classes returns
  \<^verbatim>\<open>None\<close>, while the builders of \<^verbatim>\<open>Body\<close> and \<^verbatim>\<open>Response\<close> return the empty
  list.
\<close>

theorem init_list_of_empty_mapping:
  "BaseParameter_init_list V cls' (PyDict []) config' errors' kwargs st = Inr (None, st)
   \<and> Body_init_list V (PyDict []) config' errors' kwargs st = Inr ([], st)
   \<and> Response_init_list V (PyDict []) config' errors' kwargs st = Inr ([], st)"
  by (simp add: BaseParameter_init_list_def Body_init_list_def Response_init_list_def
      iteritems_def sorted_by_code_def)

text \<open>
  C6. \<^verbatim>\<open>Response.init_list\<close> returns the normalized responses in ascending order of
  their codes, equal codes in declaration order: when every entry normalizes and the
  codes are all integers or all strings, the call returns, its result is sorted, holds
  the same responses as the loop built, and keeps the order of the responses of any one
  code.
\<close>

theorem responses_sorted_by_code:
  assumes "Response_init_each V items config' (errors_or Response_init_list_errors errors')
      kwargs st = Inr (us, st')"
    and "list_all is_KInt (map fst items) \<or> list_all is_KStr (map fst items)"
  shows "\<exists>rs. Response_init_list V (PyDict items) config' errors' kwargs st = Inr (rs, st')
    \<and> sorted_wrt code_le (map code rs)
    \<and> mset rs = mset us
    \<and> (\<forall>c. filter (\<lambda>x. code x = c) rs = filter (\<lambda>x. code x = c) us)
    \<and> map code us = map fst items"
proof -
  have codes: "map code us = map fst items"
    using Response_init_each_codes [OF assms(1)] .
  have "list_all (\<lambda>x. is_KInt (code x)) us = list_all is_KInt (map code us)"
    and "list_all (\<lambda>x. is_KStr (code x)) us = list_all is_KStr (map code us)"
    by (simp_all add: list_all_iff)
  with assms(2) codes
  have "list_all (\<lambda>x. is_KInt (code x)) us \<or> list_all (\<lambda>x. is_KStr (code x)) us"
    by simp
  from sorted_by_code_Inr [OF this] obtain rs where
    rs: "sorted_by_code us = Inr rs" "sorted_wrt code_le (map code rs)" "mset rs = mset us"
      "\<forall>c. filter (\<lambda>x. code x = c) rs = filter (\<lambda>x. code x = c) us"
    by blast
  have "Response_init_list V (PyDict items) config' errors' kwargs st = Inr (rs, st')"
    using assms(1) rs(1) by (simp add: Response_init_list_def iteritems_def)
  with rs codes show ?thesis
    by blast
qed

theorem responses_sorted_by_code_witness:
  "(\<exists>us st'. Response_init_each (spec_collaborators False)
        [(KInt 404, PyDict []), (KInt 200, PyDict []), (KInt 500, PyDict [])] (PyDict [])
        (errors_or Response_init_list_errors None) [] (\<lambda>r. []) = Inr (us, st')
      \<and> map code us = [KInt 404, KInt 200, KInt 500])
   \<and> list_all is_KInt (map fst [(KInt 404, PyDict []), (KInt 200, PyDict []), (KInt 500, PyDict [])])
   \<and> (\<exists>rs st'. Response_init_list (spec_collaborators False)
        (PyDict [(KInt 404, PyDict []), (KInt 200, PyDict []), (KInt 500, PyDict [])]) (PyDict [])
        None [] (\<lambda>r. []) = Inr (rs, st')
      \<and> map code rs = [KInt 200, KInt 404, KInt 500]
      \<and> sorted_wrt code_le (map code rs))"
proof -
  let ?V = "spec_collaborators False"
  let ?items = "[(KInt 404, PyDict []), (KInt 200, PyDict []), (KInt 500, PyDict [])]"
  have "\<exists>us st'. Response_init_each ?V ?items (PyDict [])
      (errors_or Response_init_list_errors None) [] (\<lambda>r. []) = Inr (us, st')"
    by (simp add: Response_init_def BaseParameter_init_list_def Body_init_list_def
        iteritems_def dict_get_def new_response_def instance_of_dict_def
        spec_collaborators_def)
  then obtain us st' where e: "Response_init_each ?V ?items (PyDict [])
      (errors_or Response_init_list_errors None) [] (\<lambda>r. []) = Inr (us, st')"
    by blast
  have h: "list_all is_KInt (map fst ?items) \<or> list_all is_KStr (map fst ?items)"
    by simp
  from responses_sorted_by_code [OF e h] obtain rs where
    rs: "Response_init_list ?V (PyDict ?items) (PyDict []) None [] (\<lambda>r. []) = Inr (rs, st')"
      "sorted_wrt code_le (map code rs)" "map code us = map fst ?items"
    by blast
  have "map_sum id (\<lambda>x. map code (fst x))
      (Response_init_list ?V (PyDict ?items) (PyDict []) None [] (\<lambda>r. [])) =
      Inr [KInt 200, KInt 404, KInt 500]"
    by (simp add: Response_init_list_def Response_init_def BaseParameter_init_list_def
        Body_init_list_def iteritems_def dict_get_def new_response_def instance_of_dict_def
        spec_collaborators_def sorted_by_code_def errors_or_def)
  with rs(1) have "map code rs = [KInt 200, KInt 404, KInt 500]"
    by simp
  with e rs show ?thesis
    by auto
qed

section \<open>The errors collection\<close>

text \<open>
  C8. The errors collection of the caller and the nested calls. \<^verbatim>\<open>Response.init\<close> is
  given the caller's list and stores it on the response, but the headers and bodies it
  builds carry the default lists of \<^verbatim>\<open>BaseParameter.init_list\<close> and
  \<^verbatim>\<open>Body.init_list\<close>: the diagnostic of a nested header lands there, and the caller's
  list stays empty. \<^verbatim>\<open>SecurityScheme.from_file\<close> gives the root's list to the scheme,
  and the headers it builds for the scheme carry the default list as well.
\<close>

theorem nested_init_list_leaves_callers_errors:
  "(\<exists>r st'. Response_init (spec_collaborators False) (KInt 200)
        (PyDict [(KStr ''headers'', PyDict [(KStr ''X-Rate'',
                    PyDict [(KStr ''type'', PyStr ''integer''), (KStr ''minLength'', PyInt 3)])]),
                 (KStr ''body'', PyDict [(KStr ''application/json'', PyDict [])])])
        (PyDict []) (Some (Addr 0)) [] (\<lambda>r. []) = Inr (r, st')
     \<and> response.errors r = Addr 0
     \<and> map_option (map parameter.errors) (headers r) = Some [BaseParameter_init_list_errors]
     \<and> map body.errors (body r) = [Body_init_list_errors]
     \<and> st' (Addr 0) = []
     \<and> st' BaseParameter_init_list_errors = [Invalid ''min_length''])
   \<and> (\<exists>s h st'. SecurityScheme_from_file (spec_collaborators False)
        (PyDict [(KStr ''securitySchemes'', PyList [PyDict [(KStr ''oauth_2_0'',
           PyDict [(KStr ''type'', PyStr ''OAuth 2.0''),
                   (KStr ''describedBy'', PyDict [(KStr ''headers'',
                      PyDict [(KStr ''Authorization'',
                        PyDict [(KStr ''type'', PyStr ''integer''),
                                (KStr ''minLength'', PyInt 3)])])])])]])])
        \<lparr>config = PyDict [], errors = Addr 0\<rparr> (\<lambda>r. []) = Inr (Some [s], st')
     \<and> security_scheme.errors s = Addr 0
     \<and> map_of (attached s) ''headers'' = Some (Parameters (Some [h]))
     \<and> parameter.errors h = BaseParameter_init_list_errors
     \<and> st' (Addr 0) = []
     \<and> st' BaseParameter_init_list_errors = [Invalid ''min_length''])"
proof -
  have response: "\<exists>r st'. Response_init (spec_collaborators False) (KInt 200)
        (PyDict [(KStr ''headers'', PyDict [(KStr ''X-Rate'',
                    PyDict [(KStr ''type'', PyStr ''integer''), (KStr ''minLength'', PyInt 3)])]),
                 (KStr ''body'', PyDict [(KStr ''application/json'', PyDict [])])])
        (PyDict []) (Some (Addr 0)) [] (\<lambda>r. []) = Inr (r, st')
     \<and> response.errors r = Addr 0
     \<and> map_option (map parameter.errors) (headers r) = Some [BaseParameter_init_list_errors]
     \<and> map body.errors (body r) = [Body_init_list_errors]
     \<and> st' (Addr 0) = []
     \<and> st' BaseParameter_init_list_errors = [Invalid ''min_length'']"
    by (simp add: Response_init_def BaseParameter_init_list_def Body_init_list_def
        BaseParameter_init_def Body_init_def new_parameter_def new_body_def new_response_def
        BaseParameter_get_def iteritems_def dict_get_def instance_of_dict_def errors_or_def
        spec_collaborators_def spec_string_type_parameter_def
        spec_integer_number_type_parameter_def reject_def)
  have scheme: "\<exists>s h st'. SecurityScheme_from_file (spec_collaborators False)
        (PyDict [(KStr ''securitySchemes'', PyList [PyDict [(KStr ''oauth_2_0'',
           PyDict [(KStr ''type'', PyStr ''OAuth 2.0''),
                   (KStr ''describedBy'', PyDict [(KStr ''headers'',
                      PyDict [(KStr ''Authorization'',
                        PyDict [(KStr ''type'', PyStr ''integer''),
                                (KStr ''minLength'', PyInt 3)])])])])]])])
        \<lparr>config = PyDict [], errors = Addr 0\<rparr> (\<lambda>r. []) = Inr (Some [s], st')
     \<and> security_scheme.errors s = Addr 0
     \<and> map_of (attached s) ''headers'' = Some (Parameters (Some [h]))
     \<and> parameter.errors h = BaseParameter_init_list_errors
     \<and> st' (Addr 0) = []
     \<and> st' BaseParameter_init_list_errors = [Invalid ''min_length'']"
    by (simp add: SecurityScheme_from_file_def iter_values_def new_security_scheme_def
        init_list_def classes_def lookup_key_def setattr_scheme_def
        BaseParameter_init_list_def BaseParameter_init_def new_parameter_def
        BaseParameter_get_def iteritems_def dict_get_def instance_of_dict_def errors_or_def
        spec_collaborators_def spec_string_type_parameter_def
        spec_integer_number_type_parameter_def reject_def)
  from response scheme show ?thesis
    by (rule conjI)
qed

section \<open>Properties of the description accessors\<close>

text \<open>
  C10. The description accessor collapses empty text to absence: on a parameter, a
  header, a response and a security scheme it returns \<^verbatim>\<open>None\<close> when the stored
  description is falsy, which \<^verbatim>\<open>None\<close> and the empty string are, and otherwise a
  \<^verbatim>\<open>Content\<close> whose raw text is the stored description.
\<close>

theorem description_collapses_empty_text:
  "(\<not> truthy (parameter.desc p) \<longrightarrow> description p = None)
   \<and> (truthy (parameter.desc p) \<longrightarrow>
        (\<exists>c. description p = Some c \<and> content_raw c = parameter.desc p))
   \<and> (\<not> truthy (response.desc r) \<longrightarrow> Response_description r = None)
   \<and> (truthy (response.desc r) \<longrightarrow>
        (\<exists>c. Response_description r = Some c \<and> content_raw c = response.desc r))
   \<and> (\<not> truthy (security_scheme.desc s) \<longrightarrow> SecurityScheme_description s = None)
   \<and> (truthy (security_scheme.desc s) \<longrightarrow>
        (\<exists>c. SecurityScheme_description s = Some c \<and> content_raw c = security_scheme.desc s))
   \<and> \<not> truthy PyNone \<and> \<not> truthy (PyStr []) \<and> (txt \<noteq> [] \<longrightarrow> truthy (PyStr txt))"
  by (simp add: description_def BaseParameter_description_def Header_description_def
      Response_description_def SecurityScheme_description_def Content_def content_raw_def)

theorem description_collapses_empty_text_witness:
  "\<not> truthy (parameter.desc ((unset_parameter Header (KStr ''X-Rate''))\<lparr>parameter.desc := PyStr []\<rparr>))
   \<and> description ((unset_parameter Header (KStr ''X-Rate''))\<lparr>parameter.desc := PyStr []\<rparr>) = None
   \<and> truthy (parameter.desc
        ((unset_parameter QueryParameter (KStr ''page''))\<lparr>parameter.desc := PyStr ''Page number''\<rparr>))
   \<and> (\<exists>c. description
        ((unset_parameter QueryParameter (KStr ''page''))\<lparr>parameter.desc := PyStr ''Page number''\<rparr>)
          = Some c \<and> content_raw c = PyStr ''Page number'')
   \<and> \<not> truthy (response.desc \<lparr>code = KInt 200, raw = PyDict [], desc = PyNone, headers = None,
        body = [], config = PyDict [], errors = Addr 0, method' = PyNone\<rparr>)
   \<and> Response_description \<lparr>code = KInt 200, raw = PyDict [], desc = PyNone, headers = None,
        body = [], config = PyDict [], errors = Addr 0, method' = PyNone\<rparr> = None
   \<and> truthy (security_scheme.desc \<lparr>name = KStr ''oauth_2_0'', raw = PyDict [],
        type = PyStr ''OAuth 2.0'', described_by = PyDict [], desc = PyStr ''OAuth'',
        settings = PyNone, config = PyDict [], errors = Addr 0, attached = []\<rparr>)
   \<and> (\<exists>c. SecurityScheme_description \<lparr>name = KStr ''oauth_2_0'', raw = PyDict [],
        type = PyStr ''OAuth 2.0'', described_by = PyDict [], desc = PyStr ''OAuth'',
        settings = PyNone, config = PyDict [], errors = Addr 0, attached = []\<rparr> = Some c
        \<and> content_raw c = PyStr ''OAuth'')
   \<and> truthy (response.desc \<lparr>code = KInt 404, raw = PyDict [], desc = PyStr ''Not found'',
        headers = None, body = [], config = PyDict [], errors = Addr 0, method' = PyNone\<rparr>)
   \<and> (\<exists>c. Response_description \<lparr>code = KInt 404, raw = PyDict [], desc = PyStr ''Not found'',
        headers = None, body = [], config = PyDict [], errors = Addr 0, method' = PyNone\<rparr> = Some c
        \<and> content_raw c = PyStr ''Not found'')
   \<and> \<not> truthy (security_scheme.desc \<lparr>name = KStr ''basic'', raw = PyDict [],
        type = PyStr ''Basic Authentication'', described_by = PyDict [], desc = PyStr [],
        settings = PyNone, config = PyDict [], errors = Addr 0, attached = []\<rparr>)
   \<and> SecurityScheme_description \<lparr>name = KStr ''basic'', raw = PyDict [],
        type = PyStr ''Basic Authentication'', described_by = PyDict [], desc = PyStr [],
        settings = PyNone, config = PyDict [], errors = Addr 0, attached = []\<rparr> = None
   \<and> ''Not found'' \<noteq> [] \<and> truthy (PyStr ''Not found'')"
proof -
  let ?h = "(unset_parameter Header (KStr ''X-Rate''))\<lparr>parameter.desc := PyStr []\<rparr>"
  let ?q = "(unset_parameter QueryParameter (KStr ''page''))\<lparr>parameter.desc := PyStr ''Page number''\<rparr>"
  let ?r = "\<lparr>code = KInt 200, raw = PyDict [], desc = PyNone, headers = None,
        body = [], config = PyDict [], errors = Addr 0, method' = PyNone\<rparr>"
  let ?s = "\<lparr>name = KStr ''oauth_2_0'', raw = PyDict [],
        type = PyStr ''OAuth 2.0'', described_by = PyDict [], desc = PyStr ''OAuth'',
        settings = PyNone, config = PyDict [], errors = Addr 0, attached = []\<rparr>"
  have f1: "\<not> truthy (parameter.desc ?h)" and t1: "truthy (parameter.desc ?q)"
    and f2: "\<not> truthy (response.desc ?r)" and t2: "truthy (security_scheme.desc ?s)"
    by simp_all
  have d1: "parameter.desc ?q = PyStr ''Page number''" and d2: "security_scheme.desc ?s = PyStr ''OAuth''"
    by simp_all
  from description_collapses_empty_text [of ?h ?r ?s "''x''"] f1 f2 t2 d2
  have a: "description ?h = None" "Response_description ?r = None"
    "\<exists>c. SecurityScheme_description ?s = Some c \<and> content_raw c = PyStr ''OAuth''"
    by simp_all
  from description_collapses_empty_text [of ?q ?r ?s "''x''"] t1 d1
  have b: "\<exists>c. description ?q = Some c \<and> content_raw c = PyStr ''Page number''"
    by simp
  let ?r' = "\<lparr>code = KInt 404, raw = PyDict [], desc = PyStr ''Not found'',
        headers = None, body = [], config = PyDict [], errors = Addr 0, method' = PyNone\<rparr>"
  let ?s' = "\<lparr>name = KStr ''basic'', raw = PyDict [],
        type = PyStr ''Basic Authentication'', described_by = PyDict [], desc = PyStr [],
        settings = PyNone, config = PyDict [], errors = Addr 0, attached = []\<rparr>"
  have t3: "truthy (response.desc ?r')" and f3: "\<not> truthy (security_scheme.desc ?s')"
    and n3: "''Not found'' \<noteq> []"
    by simp_all
  have d3: "response.desc ?r' = PyStr ''Not found''"
    by simp
  from description_collapses_empty_text [of ?q ?r' ?s' "''Not found''"] t3 d3 f3 n3
  have c: "\<exists>c. Response_description ?r' = Some c \<and> content_raw c = PyStr ''Not found''"
    "SecurityScheme_description ?s' = None" "truthy (PyStr ''Not found'')"
    by simp_all
  from f1 t1 f2 t2 a b t3 f3 n3 c show ?thesis
    by blast
qed

end
